theory Spec2Isabelle
  imports Complex_Main "HOL-Library.AList" "HOL-Library.Option_ord" "HOL-Library.Multiset"
begin

section \<open>Shared data model\<close>

text \<open>
  Both generators (\<^verbatim>\<open>simple_pairs.py\<close> and \<^verbatim>\<open>basic_plus_co2.py\<close>) are Python
  functions called \<^verbatim>\<open>make_config_dict\<close>. Every \<^verbatim>\<open>assert\<close>, failed subscript and
  \<^verbatim>\<open>raise\<close> aborts the call; the model returns it as the left summand.
\<close>

datatype error =
  AssertionError | KeyError | IndexError | NameError | ValueError | NotImplementedError

text \<open>
  A vial descriptor \<^verbatim>\<open>{'name': n, 'log10_conc': c}\<close>. Pins are Python integers.
  Concentrations are integers or \<^verbatim>\<open>None\<close>; Python floats are not modelled.
\<close>

record odor =
  name :: string
  log10_conc :: "int option"

text \<open>What a generator hands to \<^verbatim>\<open>common.add_pinlist\<close>, together with \<^verbatim>\<open>pins2odors\<close>.
  A Python \<^verbatim>\<open>dict\<close> is an association list in insertion order with distinct keys:
  \<^verbatim>\<open>d[k] = v\<close> is \<^const>\<open>AList.update\<close>.\<close>

record config =
  pins2odors :: "(int \<times> odor) list"
  pinlist_at_each_trial :: "int list list"

definition and_then :: "error + 'a \<Rightarrow> ('a \<Rightarrow> error + 'b) \<Rightarrow> error + 'b" where
  "and_then m f = (case m of Inl e \<Rightarrow> Inl e | Inr x \<Rightarrow> f x)"

text \<open>\<^verbatim>\<open>d[k]\<close> on a dict: \<^verbatim>\<open>KeyError\<close> when the key is missing.\<close>

definition getitem :: "('k \<times> 'v) list \<Rightarrow> 'k \<Rightarrow> error + 'v" where
  "getitem d k = (case map_of d k of None \<Rightarrow> Inl KeyError | Some v \<Rightarrow> Inr v)"

text \<open>A loop whose body may raise: the first exception ends it.\<close>

fun for_each :: "('a \<Rightarrow> error + 'b) \<Rightarrow> 'a list \<Rightarrow> error + 'b list" where
  "for_each f [] = Inr []"
| "for_each f (x # xs) =
     (case f x of Inl e \<Rightarrow> Inl e
      | Inr y \<Rightarrow> (case for_each f xs of Inl e \<Rightarrow> Inl e | Inr ys \<Rightarrow> Inr (y # ys)))"

section \<open>The pair scheduler (\<^verbatim>\<open>simple_pairs.py\<close>)\<close>

text \<open>An odor of a pair: \<^verbatim>\<open>{'name': n, 'log10_concentrations': [...]}\<close>.\<close>

record ramp_odor =
  ramp_name :: string
  log10_concentrations :: "int option list"

text \<open>
  The parsed input \<^verbatim>\<open>data\<close>. The last two fields are what
  \<^verbatim>\<open>common.get_available_pins\<close> (a function of the olfactometer package, outside this
  repository) returns beside the pin list.
\<close>

record pair_data =
  n_repeats :: int
  odor_pairs :: "(ramp_odor \<times> ramp_odor) list"
  available_group1_valve_pins :: "int list"
  available_group2_valve_pins :: "int list"
  group1_balance_pin :: int
  group2_balance_pin :: int
  co2_pin :: "int option"
  single_manifold :: bool
  pins2balances :: "(int \<times> int) list"

definition get_odor_name :: "ramp_odor \<Rightarrow> string" where
  "get_odor_name odor = ramp_name odor"

definition get_odor_concs :: "ramp_odor \<Rightarrow> int option list" where
  "get_odor_concs odor = log10_concentrations odor"

text \<open>
  One iteration of the loop of lines 90 to 107, on the accumulated
  \<^verbatim>\<open>(odor_vials, odor_pins)\<close>.
\<close>

definition group_step ::
  "(string \<times> int option list) list \<Rightarrow> string \<Rightarrow> int list \<Rightarrow> odor list \<times> int list
     \<Rightarrow> error + odor list \<times> int list" where
  "group_step odor_name2log10_concs n available_group_valve_pins acc =
     (if n = ''CO2'' then Inr acc
      else and_then (getitem odor_name2log10_concs n) (\<lambda>concs.
        let n_concentrations = length concs in
        if \<not> length available_group_valve_pins \<ge> n_concentrations + 1 then Inl AssertionError
        else
          let group_vials = map (\<lambda>c. \<lparr>name = n, log10_conc = c\<rparr>) concs in
          Inr (fst acc @ group_vials,
               snd acc @ take (length group_vials) available_group_valve_pins)))"

text \<open>
  Lines 113 to 125. \<^verbatim>\<open>available_group_valve_pins\<close> is read here after the loop has
  ended, so the caller passes the value the loop variable was left with.
\<close>

definition co2_block ::
  "pair_data \<Rightarrow> (string \<times> int option list) list \<Rightarrow> string list \<Rightarrow> int list
     \<Rightarrow> (int \<times> odor) list \<Rightarrow> error + (int \<times> odor) list \<times> int option" where
  "co2_block data odor_name2log10_concs manifold_odors available_group_valve_pins p2o =
     (if ''CO2'' \<in> set manifold_odors then
        and_then (getitem odor_name2log10_concs ''CO2'') (\<lambda>co2_concs.
          if length co2_concs \<noteq> 1 then Inl AssertionError
          else
            let co2_conc = hd co2_concs in
            (case co2_pin data of
               None \<Rightarrow> Inl KeyError
             | Some cp \<Rightarrow>
                 let p2o1 = AList.update cp \<lparr>name = ''CO2'', log10_conc = co2_conc\<rparr> p2o in
                 if available_group_valve_pins = [] then Inl IndexError
                 else
                   let co2_air_compensation_pin = last available_group_valve_pins in
                   Inr (AList.update co2_air_compensation_pin
                          \<lparr>name = ''air for co2 compensation'', log10_conc = Some 0\<rparr> p2o1,
                        Some co2_air_compensation_pin)))
      else Inr (p2o, None))"

text \<open>
  \<^verbatim>\<open>tuple(vial_dict.items())\<close>: either the one-item tuple of the shared solvent vial or
  the two-item tuple of a name and a concentration.
\<close>

datatype vial_tuple = Solvent | NameConc string "int option"

definition odor_items :: "odor \<Rightarrow> vial_tuple" where
  "odor_items od = NameConc (name od) (log10_conc od)"

definition get_vial_tuple :: "bool \<Rightarrow> string \<Rightarrow> int option \<Rightarrow> error + vial_tuple" where
  "get_vial_tuple single_manifold_flag nm conc =
     (if single_manifold_flag \<and> conc = None then Inr Solvent
      else if \<not> (conc \<noteq> None \<or> (\<not> single_manifold_flag \<and> conc = None))
        then Inl AssertionError
      else Inr (NameConc nm conc))"

text \<open>\<^verbatim>\<open>{tuple(o.items()): p for p, o in pins2odors.items()}\<close>\<close>

definition vials2pins_of :: "(int \<times> odor) list \<Rightarrow> (vial_tuple \<times> int) list" where
  "vials2pins_of p2o = fold (\<lambda>(p, od) m. AList.update (odor_items od) p m) p2o []"

text \<open>
  The key of the sort: \<^verbatim>\<open>None\<close> becomes \<^verbatim>\<open>float('-inf')\<close>. In the key type
  \<^typ>\<open>int option\<close> the value \<^term>\<open>None\<close> stands for minus infinity: it is below
  every \<^term>\<open>Some c\<close> in the order on options.
\<close>

definition conc_sort_key :: "int option \<Rightarrow> int option" where
  "conc_sort_key conc = (if conc \<noteq> None then conc else None)"

text \<open>The body of the nested loops, lines 178 to 208: the pins of one trial.\<close>

definition pins_of_trial ::
  "pair_data \<Rightarrow> (vial_tuple \<times> int) list \<Rightarrow> int option \<Rightarrow> string \<Rightarrow> string
     \<Rightarrow> int option \<times> int option \<Rightarrow> error + int list" where
  "pins_of_trial data vials2pins comp_pin n1 n2 cc =
     (case cc of (c1, c2) \<Rightarrow>
      and_then (get_vial_tuple (single_manifold data) n1 c1) (\<lambda>o1.
      and_then (get_vial_tuple (single_manifold data) n2 c2) (\<lambda>o2.
      and_then (getitem vials2pins o1) (\<lambda>p1.
      and_then (getitem vials2pins o2) (\<lambda>p2.
        let pins = sort (remdups [p1, p2]) in
        and_then
          (if \<not> single_manifold data then
             (if length pins \<noteq> 2 then Inl AssertionError
              else Inr (pins @ [group1_balance_pin data, group2_balance_pin data]))
           else Inr pins) (\<lambda>pins.
        if ''CO2'' \<in> set [n1, n2] then
          (case comp_pin of None \<Rightarrow> Inl NameError | Some p \<Rightarrow> Inr (pins @ [p]))
        else Inr pins))))))"

text \<open>The order of the two loops: \<^verbatim>\<open>c1\<close> outside, \<^verbatim>\<open>c2\<close> inside.\<close>

definition conc_order :: "int option list \<Rightarrow> int option list \<Rightarrow> (int option \<times> int option) list" where
  "conc_order concs1 concs2 =
     List.product (sort_key conc_sort_key concs1) (sort_key conc_sort_key concs2)"

text \<open>The body of the loop over \<^verbatim>\<open>odor_pairs\<close>.\<close>

definition pair_config :: "pair_data \<Rightarrow> ramp_odor \<times> ramp_odor \<Rightarrow> error + config" where
  "pair_config data pair =
     (case pair of (odor1, odor2) \<Rightarrow>
      let odor1_name = get_odor_name odor1;
          odor2_name = get_odor_name odor2;
          odor1_log10_concs = get_odor_concs odor1;
          odor2_log10_concs = get_odor_concs odor2
      in
      if \<not> odor1_name \<noteq> odor2_name then Inl AssertionError
      else
        let odor_name2log10_concs =
              AList.update odor2_name odor2_log10_concs [(odor1_name, odor1_log10_concs)];
            manifold_odors = [odor1_name, odor2_name]
        in
        and_then (group_step odor_name2log10_concs odor1_name
                    (available_group1_valve_pins data) ([], [])) (\<lambda>acc1.
        and_then (group_step odor_name2log10_concs odor2_name
                    (available_group2_valve_pins data) acc1) (\<lambda>(odor_vials, odor_pins).
        if length odor_vials \<noteq> length odor_pins then Inl AssertionError
        else
          and_then (co2_block data odor_name2log10_concs manifold_odors
                      (available_group2_valve_pins data)
                      (AList.updates odor_pins odor_vials [])) (\<lambda>(p2o, comp_pin).
          let vials2pins = vials2pins_of p2o;
              n1 = odor1_name;
              n2 = odor2_name
          in
          and_then (getitem odor_name2log10_concs n1) (\<lambda>concs1.
          and_then (getitem odor_name2log10_concs n2) (\<lambda>concs2.
          and_then (for_each (pins_of_trial data vials2pins comp_pin n1 n2)
                      (conc_order concs1 concs2)) (\<lambda>pinss.
            Inr \<lparr>pins2odors = p2o,
                 pinlist_at_each_trial =
                   concat (map (\<lambda>pins. replicate (nat (n_repeats data)) pins) pinss)\<rparr>)))))))"

definition make_config_dict_pairs :: "pair_data \<Rightarrow> error + config list" where
  "make_config_dict_pairs data =
     (if \<not> \<not> single_manifold data then Inl AssertionError
      else if card (set (map snd (pins2balances data))) \<noteq> 2 then Inl AssertionError
      else for_each (pair_config data) (odor_pairs data))"

section \<open>The panel scheduler (\<^verbatim>\<open>basic_plus_co2.py\<close>)\<close>

text \<open>
  A Python \<^verbatim>\<open>float\<close>: a finite double, given by its value (a rational number; the two
  zeros \<^verbatim>\<open>0.0\<close> and \<^verbatim>\<open>-0.0\<close> are equal and both false, and have the value 0), an
  infinity, or not-a-number.
\<close>

datatype pyfloat = Finite rat | PosInf | NegInf | NaN

text \<open>
  The values that the YAML loader can build for the key
  \<^verbatim>\<open>randomize_presentation_order\<close>: a boolean, an integer, a float, a string, null, a
  sequence, a mapping, or another object (a date, bytes, a set), of which only the truth
  value is kept.
\<close>

datatype pyval =
  PBool bool | PInt int | PFloat pyfloat | PStr string | PNone
  | PSeq "pyval list" | PMap "(pyval \<times> pyval) list" | POther bool

text \<open>
  Python's \<^verbatim>\<open>v == b\<close> for a \<^verbatim>\<open>bool\<close> \<^verbatim>\<open>b\<close>: \<^verbatim>\<open>bool\<close> is a subclass of
  \<^verbatim>\<open>int\<close> with \<^verbatim>\<open>True == 1\<close> and \<^verbatim>\<open>False == 0\<close>, and numbers compare by value, so
  \<^verbatim>\<open>1.0 == True\<close> and \<^verbatim>\<open>0.0 == False\<close>. No infinity and no not-a-number is equal to
  an integer, and no value of another type is equal to a boolean.
\<close>

fun float_eq_int :: "pyfloat \<Rightarrow> int \<Rightarrow> bool" where
  "float_eq_int (Finite q) i = (q = of_int i)"
| "float_eq_int PosInf i = False"
| "float_eq_int NegInf i = False"
| "float_eq_int NaN i = False"

fun py_eq_bool :: "pyval \<Rightarrow> bool \<Rightarrow> bool" where
  "py_eq_bool (PBool c) b = (c = b)"
| "py_eq_bool (PInt i) b = (i = (if b then 1 else 0))"
| "py_eq_bool (PFloat f) b = float_eq_int f (if b then 1 else 0)"
| "py_eq_bool (PStr s) b = False"
| "py_eq_bool PNone b = False"
| "py_eq_bool (PSeq xs) b = False"
| "py_eq_bool (PMap kvs) b = False"
| "py_eq_bool (POther t) b = False"

text \<open>\<^verbatim>\<open>v in (True, False)\<close>\<close>

definition in_True_False :: "pyval \<Rightarrow> bool" where
  "in_True_False v = (py_eq_bool v True \<or> py_eq_bool v False)"

text \<open>The truth value of \<^verbatim>\<open>if v:\<close>: a number is false when it is zero, a string,
  sequence or mapping when it is empty, and \<^verbatim>\<open>None\<close> is false.\<close>

fun truthy :: "pyval \<Rightarrow> bool" where
  "truthy (PBool c) = c"
| "truthy (PInt i) = (i \<noteq> 0)"
| "truthy (PFloat f) = (f \<noteq> Finite 0)"
| "truthy (PStr s) = (s \<noteq> [])"
| "truthy PNone = False"
| "truthy (PSeq xs) = (xs \<noteq> [])"
| "truthy (PMap kvs) = (kvs \<noteq> [])"
| "truthy (POther t) = t"

text \<open>
  The module \<^verbatim>\<open>random\<close> keeps a generator for the whole process. Its state is modelled
  as the list of the raw draws still to come (a draw from the empty list is 0) and is
  passed through the calls.
\<close>

type_synonym rng = "nat list"

fun draw :: "rng \<Rightarrow> nat \<times> rng" where
  "draw [] = (0, [])"
| "draw (r # g) = (r, g)"

text \<open>
  \<^verbatim>\<open>random.sample(population, k)\<close> returns the elements at \<^verbatim>\<open>k\<close> distinct positions
  of the population, in selection order: each draw selects one of the positions that are
  left. It raises \<^verbatim>\<open>ValueError\<close> when \<^verbatim>\<open>k\<close> exceeds the population.
\<close>

fun draw_sample :: "rng \<Rightarrow> 'a list \<Rightarrow> nat \<Rightarrow> 'a list \<times> rng" where
  "draw_sample g pool 0 = ([], g)"
| "draw_sample g pool (Suc k) =
     (if pool = [] then ([], g)
      else
        (case draw g of (r, g1) \<Rightarrow>
           let i = r mod length pool in
           (case draw_sample g1 (take i pool @ drop (Suc i) pool) k of
              (rest, g2) \<Rightarrow> (pool ! i # rest, g2))))"

definition sample :: "rng \<Rightarrow> 'a list \<Rightarrow> nat \<Rightarrow> error + 'a list \<times> rng" where
  "sample g population k =
     (if k > length population then Inl ValueError else Inr (draw_sample g population k))"

text \<open>\<^verbatim>\<open>random.shuffle(x)\<close> reorders the list in place; the model returns the new list.\<close>

definition shuffle :: "rng \<Rightarrow> 'a list \<Rightarrow> 'a list \<times> rng" where
  "shuffle g x = draw_sample g x (length x)"

datatype warning = DefaultingToRandomize | OnlyRandomizesAcrossOdors

text \<open>
  The parsed input. \<^verbatim>\<open>available_valve_pins\<close> is the pin list returned by
  \<^verbatim>\<open>common.get_available_pins\<close>; the other fields are keys of \<^verbatim>\<open>data\<close>, optional
  ones as options.
\<close>

record panel_data =
  odors :: "odor list"
  randomize_presentation_order :: "pyval option"
  panel_n_repeats :: "int option"
  panel_co2_pin :: "int option"
  available_valve_pins :: "int list"

text \<open>Lines 102 to 114: the value of \<^verbatim>\<open>randomize_presentation_order\<close>.\<close>

definition resolve_randomize :: "panel_data \<Rightarrow> error + pyval \<times> warning list" where
  "resolve_randomize data =
     (case randomize_presentation_order data of
        Some v \<Rightarrow> if \<not> in_True_False v then Inl AssertionError else Inr (v, [])
      | None \<Rightarrow>
          if length (odors data) > 1 then Inr (PBool True, [DefaultingToRandomize])
          else if length (odors data) \<noteq> 1 then Inl AssertionError
          else Inr (PBool False, []))"

text \<open>Lines 116 to 124.\<close>

definition resolve_n_repeats :: "panel_data \<Rightarrow> pyval \<Rightarrow> int \<times> warning list" where
  "resolve_n_repeats data rpo =
     (case panel_n_repeats data of
        Some n \<Rightarrow> (n, if truthy rpo then [OnlyRandomizesAcrossOdors] else [])
      | None \<Rightarrow> (1, []))"

text \<open>Line 132: \<^verbatim>\<open>[[p] for p in trial_pins for _ in range(n_repeats)]\<close>\<close>

definition expand_trials :: "int list \<Rightarrow> int \<Rightarrow> int list list" where
  "expand_trials trial_pins n = concat (map (\<lambda>p. replicate (nat n) [p]) trial_pins)"

text \<open>Lines 138 to 162.\<close>

definition co2_rewire ::
  "panel_data \<Rightarrow> (int \<times> odor) list \<Rightarrow> int list list
     \<Rightarrow> error + (int \<times> odor) list \<times> int list list" where
  "co2_rewire data p2o pinlists =
     (let co2_odors = filter (\<lambda>od. name od = ''CO2'') (odors data) in
      if length co2_odors > 0 then
        (case panel_co2_pin data of
           None \<Rightarrow> Inl AssertionError
         | Some co2 \<Rightarrow>
             if length co2_odors > 1 then Inl NotImplementedError
             else
               let co2_odor = hd co2_odors;
                   curr_co2_pins = map fst (filter (\<lambda>(p, od). name od = ''CO2'') p2o)
               in
               if length curr_co2_pins \<noteq> 1 then Inl AssertionError
               else
                 let curr_co2_pin = hd curr_co2_pins;
                     p2o1 = AList.update curr_co2_pin
                              \<lparr>name = ''air for co2-mixture compensation'',
                               log10_conc = Some 0\<rparr> p2o;
                     p2o2 = AList.update co2 co2_odor p2o1
                 in
                 if list_ex (\<lambda>pl. co2 \<in> set pl) pinlists then Inl AssertionError
                 else
                   Inr (p2o2,
                        map (\<lambda>pl. if curr_co2_pin \<in> set pl then pl @ [co2] else pl)
                          pinlists))
      else Inr (p2o, pinlists))"

text \<open>
  \<^verbatim>\<open>common.add_balance_pins\<close> belongs to the olfactometer package; applied to
  \<^verbatim>\<open>pins2balances\<close> it is the parameter \<open>add_balance_pins\<close>. Lines 80 to 136, up to
  the CO2 block: the pin map, the trials with their balance pins, and the warnings issued.
\<close>

definition panel_before_co2 ::
  "(int list list \<Rightarrow> int list list) \<Rightarrow> rng \<Rightarrow> panel_data
     \<Rightarrow> error + (int \<times> odor) list \<times> int list list \<times> warning list" where
  "panel_before_co2 add_balance_pins g data =
     (let n_odors = length (odors data) in
      if \<not> length (available_valve_pins data) \<ge> n_odors then Inl AssertionError
      else
        and_then (sample g (available_valve_pins data) n_odors) (\<lambda>(odor_pins, g1).
        let p2o = AList.updates odor_pins (odors data) [] in
        and_then (resolve_randomize data) (\<lambda>(rpo, w1).
        (case resolve_n_repeats data rpo of (n, w2) \<Rightarrow>
           let trial_pins = (if truthy rpo then fst (shuffle g1 odor_pins) else odor_pins);
               trial_pinlists = expand_trials trial_pins n
           in Inr (p2o, add_balance_pins trial_pinlists, w1 @ w2)))))"

text \<open>The whole function: the result holds the warnings beside the configuration.\<close>

definition make_config_dict_panel ::
  "(int list list \<Rightarrow> int list list) \<Rightarrow> rng \<Rightarrow> panel_data \<Rightarrow> error + config \<times> warning list" where
  "make_config_dict_panel add_balance_pins g data =
     and_then (panel_before_co2 add_balance_pins g data) (\<lambda>(p2o, pinlists, ws).
     and_then (co2_rewire data p2o pinlists) (\<lambda>(p2o2, pinlists2).
       Inr (\<lparr>pins2odors = p2o2, pinlist_at_each_trial = pinlists2\<rparr>, ws)))"

section \<open>Example inputs\<close>

text \<open>
  The pair scenario of the specification: streams X with ramp \<open>[-6, -4]\<close> and Y with
  ramp \<open>[-5, -3]\<close>, pools of three pins each, two manifolds, two repeats.
\<close>

definition example_pairs :: pair_data where
  "example_pairs =
     \<lparr>n_repeats = 2,
      odor_pairs =
        [(\<lparr>ramp_name = ''X'', log10_concentrations = [Some (- 6), Some (- 4)]\<rparr>,
          \<lparr>ramp_name = ''Y'', log10_concentrations = [Some (- 5), Some (- 3)]\<rparr>)],
      available_group1_valve_pins = [2, 3, 4],
      available_group2_valve_pins = [5, 6, 7],
      group1_balance_pin = 8,
      group2_balance_pin = 9,
      co2_pin = None,
      single_manifold = False,
      pins2balances = [(2, 8), (3, 8), (4, 8), (5, 9), (6, 9), (7, 9)]\<rparr>"

definition example_pairs_config :: config where
  "example_pairs_config =
     \<lparr>pins2odors =
        [(2, \<lparr>name = ''X'', log10_conc = Some (- 6)\<rparr>),
         (3, \<lparr>name = ''X'', log10_conc = Some (- 4)\<rparr>),
         (5, \<lparr>name = ''Y'', log10_conc = Some (- 5)\<rparr>),
         (6, \<lparr>name = ''Y'', log10_conc = Some (- 3)\<rparr>)],
      pinlist_at_each_trial =
        [[2, 5, 8, 9], [2, 5, 8, 9], [2, 6, 8, 9], [2, 6, 8, 9],
         [3, 5, 8, 9], [3, 5, 8, 9], [3, 6, 8, 9], [3, 6, 8, 9]]\<rparr>"

text \<open>A pair whose first ramp is unsorted and holds a null concentration.\<close>

definition example_null :: pair_data where
  "example_null =
     example_pairs\<lparr>odor_pairs :=
        [(\<lparr>ramp_name = ''X'', log10_concentrations = [Some (- 4), None]\<rparr>,
          \<lparr>ramp_name = ''Y'', log10_concentrations = [Some (- 5)]\<rparr>)]\<rparr>"

definition example_null_config :: config where
  "example_null_config =
     \<lparr>pins2odors =
        [(2, \<lparr>name = ''X'', log10_conc = Some (- 4)\<rparr>),
         (3, \<lparr>name = ''X'', log10_conc = None\<rparr>),
         (5, \<lparr>name = ''Y'', log10_conc = Some (- 5)\<rparr>)],
      pinlist_at_each_trial = [[3, 5, 8, 9], [3, 5, 8, 9], [2, 5, 8, 9], [2, 5, 8, 9]]\<rparr>"

text \<open>
  The assignment as the specification words it: a stream not named CO2 gets the first
  (ramp length) pins of its pool, in pool order, one for each vial of its ramp; a CO2
  stream gets none.
\<close>

definition first_pins :: "string \<Rightarrow> int option list \<Rightarrow> int list \<Rightarrow> int list" where
  "first_pins nm concs pool = (if nm = ''CO2'' then [] else take (length concs) pool)"

definition stream_vials :: "string \<Rightarrow> int option list \<Rightarrow> odor list" where
  "stream_vials nm concs =
     (if nm = ''CO2'' then [] else map (\<lambda>c. \<lparr>name = nm, log10_conc = c\<rparr>) concs)"


text \<open>A pair whose first stream is CO2.\<close>

definition example_co2_first :: pair_data where
  "example_co2_first =
     example_pairs\<lparr>odor_pairs :=
        [(\<lparr>ramp_name = ''CO2'', log10_concentrations = [Some 0]\<rparr>,
          \<lparr>ramp_name = ''Y'', log10_concentrations = [Some (- 5), Some (- 3)]\<rparr>)],
        co2_pin := Some 10\<rparr>"

definition example_co2_first_config :: config where
  "example_co2_first_config =
     \<lparr>pins2odors =
        [(5, \<lparr>name = ''Y'', log10_conc = Some (- 5)\<rparr>),
         (6, \<lparr>name = ''Y'', log10_conc = Some (- 3)\<rparr>),
         (10, \<lparr>name = ''CO2'', log10_conc = Some 0\<rparr>),
         (7, \<lparr>name = ''air for co2 compensation'', log10_conc = Some 0\<rparr>)],
      pinlist_at_each_trial =
        [[5, 10, 8, 9, 7], [5, 10, 8, 9, 7], [6, 10, 8, 9, 7], [6, 10, 8, 9, 7]]\<rparr>"

text \<open>The claim's ``a boolean'': a value of Python's type \<^verbatim>\<open>bool\<close>.\<close>

definition is_bool :: "pyval \<Rightarrow> bool" where
  "is_bool v = (case v of PBool b \<Rightarrow> True | _ \<Rightarrow> False)"


text \<open>
  The panel scenario of the specification: odors A, B and CO2, pool \<open>[2, 3, 4]\<close>, CO2 pin
  5; and a panel of one odor with neither \<^verbatim>\<open>randomize_presentation_order\<close> nor
  \<^verbatim>\<open>n_repeats\<close>.
\<close>

definition example_panel :: panel_data where
  "example_panel =
     \<lparr>odors = [\<lparr>name = ''A'', log10_conc = Some (- 3)\<rparr>, \<lparr>name = ''B'', log10_conc = None\<rparr>,
               \<lparr>name = ''CO2'', log10_conc = None\<rparr>],
      randomize_presentation_order = Some (PBool False),
      panel_n_repeats = Some 2,
      panel_co2_pin = Some 5,
      available_valve_pins = [2, 3, 4]\<rparr>"


definition example_panel_int_config :: config where
  "example_panel_int_config =
     \<lparr>pins2odors =
        [(2, \<lparr>name = ''A'', log10_conc = Some (- 3)\<rparr>),
         (3, \<lparr>name = ''B'', log10_conc = None\<rparr>),
         (4, \<lparr>name = ''air for co2-mixture compensation'', log10_conc = Some 0\<rparr>),
         (5, \<lparr>name = ''CO2'', log10_conc = None\<rparr>)],
      pinlist_at_each_trial = [[3, 9], [3, 9], [2, 9], [2, 9], [4, 9, 5], [4, 9, 5]]\<rparr>"

definition example_single :: panel_data where
  "example_single =
     \<lparr>odors = [\<lparr>name = ''A'', log10_conc = Some (- 3)\<rparr>],
      randomize_presentation_order = None,
      panel_n_repeats = None,
      panel_co2_pin = None,
      available_valve_pins = [2, 3, 4]\<rparr>"

text \<open>The entry that lines 152 to 155 put on the pin formerly assigned to CO2.\<close>

definition air_for_co2_mixture :: odor where
  "air_for_co2_mixture = \<lparr>name = ''air for co2-mixture compensation'', log10_conc = Some 0\<rparr>"


text \<open>The configuration of the panel scenario, with balance pin 9 appended to each trial.\<close>

definition example_panel_config :: config where
  "example_panel_config =
     \<lparr>pins2odors =
        [(2, \<lparr>name = ''A'', log10_conc = Some (- 3)\<rparr>),
         (3, \<lparr>name = ''B'', log10_conc = None\<rparr>),
         (4, \<lparr>name = ''air for co2-mixture compensation'', log10_conc = Some 0\<rparr>),
         (5, \<lparr>name = ''CO2'', log10_conc = None\<rparr>)],
      pinlist_at_each_trial = [[2, 9], [2, 9], [3, 9], [3, 9], [4, 9, 5], [4, 9, 5]]\<rparr>"

section \<open>Basic facts\<close>

lemma and_then_Inl [simp]: "and_then (Inl e) f = Inl e"
  by (simp add: and_then_def)

lemma and_then_Inr [simp]: "and_then (Inr x) f = f x"
  by (simp add: and_then_def)

lemma and_then_eq_Inr:
  "and_then m f = Inr y \<longleftrightarrow> (\<exists>x. m = Inr x \<and> f x = Inr y)"
  by (cases m) simp_all

lemma for_each_Inr_length: "for_each f xs = Inr ys \<Longrightarrow> length ys = length xs"
  by (induction xs arbitrary: ys) (auto split: sum.splits)

lemma for_each_Inr_nth:
  "for_each f xs = Inr ys \<Longrightarrow> i < length xs \<Longrightarrow> f (xs ! i) = Inr (ys ! i)"
proof (induction xs arbitrary: ys i)
  case Nil
  then show ?case by simp
next
  case (Cons x xs)
  then show ?case by (cases i) (auto split: sum.splits)
qed

lemma for_each_raises:
  "x \<in> set xs \<Longrightarrow> f x = Inl e \<Longrightarrow> \<exists>e'. for_each f xs = Inl e'"
  by (induction xs) (auto split: sum.splits)

lemma getitem_name2concs_first:
  "n1 \<noteq> n2 \<Longrightarrow> getitem (AList.update n2 c2 [(n1, c1)]) n1 = Inr c1"
  by (simp add: getitem_def)

lemma getitem_name2concs_second:
  "getitem (AList.update n2 c2 [(n1, c1)]) n2 = Inr c2"
  by (simp add: getitem_def)

section \<open>The pair scheduler: fatal inputs\<close>

lemma group_step_CO2 [simp]: "group_step d ''CO2'' pool acc = Inr acc"
  by (simp add: group_step_def)

lemma group_step_short:
  "n \<noteq> ''CO2'' \<Longrightarrow> getitem d n = Inr concs \<Longrightarrow> length pool < length concs + 1
     \<Longrightarrow> group_step d n pool acc = Inl AssertionError"
  by (simp add: group_step_def)

lemma group_step_ok:
  "n \<noteq> ''CO2'' \<Longrightarrow> getitem d n = Inr concs \<Longrightarrow> length concs + 1 \<le> length pool
     \<Longrightarrow> group_step d n pool acc =
         Inr (fst acc @ map (\<lambda>c. \<lparr>name = n, log10_conc = c\<rparr>) concs,
              snd acc @ take (length concs) pool)"
  by (simp add: group_step_def Let_def)

lemma pair_config_same_name:
  "get_odor_name o1 = get_odor_name o2 \<Longrightarrow> pair_config data (o1, o2) = Inl AssertionError"
  by (simp add: pair_config_def Let_def)

lemma pair_config_short1:
  assumes "get_odor_name o1 \<noteq> ''CO2''"
    and "length (available_group1_valve_pins data) < length (get_odor_concs o1) + 1"
  shows "\<exists>e. pair_config data (o1, o2) = Inl e"
proof (cases "get_odor_name o1 = get_odor_name o2")
  case True
  then show ?thesis by (simp add: pair_config_same_name)
next
  case False
  then show ?thesis using assms
    by (simp add: pair_config_def Let_def group_step_short getitem_name2concs_first
        del: AList.update.simps)
qed

lemma pair_config_short2:
  assumes "get_odor_name o2 \<noteq> ''CO2''"
    and "length (available_group2_valve_pins data) < length (get_odor_concs o2) + 1"
  shows "\<exists>e. pair_config data (o1, o2) = Inl e"
proof (cases "get_odor_name o1 = get_odor_name o2")
  case True
  then show ?thesis by (simp add: pair_config_same_name)
next
  case False
  show ?thesis
  proof (cases "group_step (AList.update (get_odor_name o2) (get_odor_concs o2)
                   [(get_odor_name o1, get_odor_concs o1)]) (get_odor_name o1)
                   (available_group1_valve_pins data) ([], [])")
    case (Inl e)
    then show ?thesis using False
      by (simp add: pair_config_def Let_def del: AList.update.simps)
  next
    case (Inr acc)
    then show ?thesis using False assms
      by (simp add: pair_config_def Let_def group_step_short getitem_name2concs_second
          del: AList.update.simps)
  qed
qed

text \<open>
  Claim C6. The pair scheduler returns an error, and so no configuration at all, when the
  hardware is single-manifold, when the balance pins of \<^verbatim>\<open>pins2balances\<close> are not
  exactly two distinct pins, when the two odors of some pair have the same name, or when
  a stream not named CO2 has a ramp of \<open>k\<close> concentrations and a pool of fewer than
  \<open>k + 1\<close> pins.
\<close>

theorem pair_scheduler_fatal:
  assumes "single_manifold data
     \<or> card (set (map snd (pins2balances data))) \<noteq> 2
     \<or> (\<exists>(o1, o2) \<in> set (odor_pairs data).
          get_odor_name o1 = get_odor_name o2
          \<or> (get_odor_name o1 \<noteq> ''CO2''
               \<and> length (available_group1_valve_pins data) < length (get_odor_concs o1) + 1)
          \<or> (get_odor_name o2 \<noteq> ''CO2''
               \<and> length (available_group2_valve_pins data) < length (get_odor_concs o2) + 1))"
  shows "\<exists>e. make_config_dict_pairs data = Inl e"
proof (cases "single_manifold data \<or> card (set (map snd (pins2balances data))) \<noteq> 2")
  case True
  then show ?thesis by (auto simp: make_config_dict_pairs_def)
next
  case False
  with assms obtain o1 o2 where mem: "(o1, o2) \<in> set (odor_pairs data)"
    and bad: "get_odor_name o1 = get_odor_name o2
          \<or> (get_odor_name o1 \<noteq> ''CO2''
               \<and> length (available_group1_valve_pins data) < length (get_odor_concs o1) + 1)
          \<or> (get_odor_name o2 \<noteq> ''CO2''
               \<and> length (available_group2_valve_pins data) < length (get_odor_concs o2) + 1)"
    by blast
  from bad have "\<exists>e. pair_config data (o1, o2) = Inl e"
    using pair_config_same_name pair_config_short1 pair_config_short2 by blast
  then obtain e where "pair_config data (o1, o2) = Inl e" ..
  from for_each_raises [of "(o1, o2)" "odor_pairs data" "pair_config data" e] mem this
  show ?thesis
    using False by (simp add: make_config_dict_pairs_def)
qed

theorem pair_scheduler_fatal_witness:
  "(\<exists>e. make_config_dict_pairs (example_pairs\<lparr>single_manifold := True\<rparr>) = Inl e)
   \<and> (\<exists>e. make_config_dict_pairs (example_pairs\<lparr>pins2balances := [(2, 8), (5, 8)]\<rparr>) = Inl e)
   \<and> (\<exists>e. make_config_dict_pairs
            (example_pairs\<lparr>odor_pairs :=
               [(\<lparr>ramp_name = ''X'', log10_concentrations = [Some (- 6)]\<rparr>,
                 \<lparr>ramp_name = ''X'', log10_concentrations = [Some (- 5)]\<rparr>)]\<rparr>) = Inl e)
   \<and> (\<exists>e. make_config_dict_pairs
            (example_pairs\<lparr>available_group2_valve_pins := [5, 6]\<rparr>) = Inl e)"
  using pair_scheduler_fatal [of "example_pairs\<lparr>single_manifold := True\<rparr>"]
    pair_scheduler_fatal [of "example_pairs\<lparr>pins2balances := [(2, 8), (5, 8)]\<rparr>"]
    pair_scheduler_fatal
      [of "example_pairs\<lparr>odor_pairs :=
             [(\<lparr>ramp_name = ''X'', log10_concentrations = [Some (- 6)]\<rparr>,
               \<lparr>ramp_name = ''X'', log10_concentrations = [Some (- 5)]\<rparr>)]\<rparr>"]
    pair_scheduler_fatal [of "example_pairs\<lparr>available_group2_valve_pins := [5, 6]\<rparr>"]
  by (simp add: example_pairs_def get_odor_name_def get_odor_concs_def)

section \<open>The pair scheduler: the solvent identity\<close>

text \<open>
  Claim C10. A single-manifold input is rejected by the first assertion, before any pair
  is looked at; on every other input the helper \<^verbatim>\<open>get_vial_tuple\<close>, called with the
  run's \<^verbatim>\<open>single_manifold\<close>, builds the key from the name and the concentration it is
  given, for a null concentration too, and never returns the shared solvent identity.
\<close>

theorem solvent_branch_unreachable:
  "(single_manifold data \<longrightarrow> make_config_dict_pairs data = Inl AssertionError)
   \<and> (\<not> single_manifold data \<longrightarrow>
        (\<forall>nm conc. get_vial_tuple (single_manifold data) nm conc = Inr (NameConc nm conc)
           \<and> get_vial_tuple (single_manifold data) nm conc \<noteq> Inr Solvent))"
  by (auto simp: make_config_dict_pairs_def get_vial_tuple_def)

theorem solvent_branch_unreachable_witness:
  "make_config_dict_pairs (example_pairs\<lparr>single_manifold := True\<rparr>) = Inl AssertionError
   \<and> get_vial_tuple (single_manifold example_pairs) ''Y'' None = Inr (NameConc ''Y'' None)"
  using solvent_branch_unreachable [of "example_pairs\<lparr>single_manifold := True\<rparr>"]
    solvent_branch_unreachable [of example_pairs]
  by (simp add: example_pairs_def)

section \<open>The pair scheduler: structure of a successful run\<close>

lemma vials2pins_fold_sound:
  "map_of (fold (\<lambda>(p, od) m. AList.update (odor_items od) p m) p2o m0) k = Some p
     \<Longrightarrow> (\<exists>od. (p, od) \<in> set p2o \<and> odor_items od = k) \<or> map_of m0 k = Some p"
proof (induction p2o arbitrary: m0)
  case Nil
  then show ?case by simp
next
  case (Cons a p2o)
  obtain q od where a: "a = (q, od)" by (cases a)
  from Cons.prems have
    "map_of (fold (\<lambda>(p, od) m. AList.update (odor_items od) p m) p2o
        (AList.update (odor_items od) q m0)) k = Some p"
    by (simp add: a)
  from Cons.IH [OF this] show ?case
    by (auto simp: a update_conv' split: if_splits)
qed

lemma vials2pins_of_sound:
  assumes "map_of (vials2pins_of p2o) (NameConc nm conc) = Some p"
    and "distinct (map fst p2o)"
  shows "map_of p2o p = Some \<lparr>name = nm, log10_conc = conc\<rparr>"
proof -
  from vials2pins_fold_sound [of p2o "[]" "NameConc nm conc" p] assms(1)
  obtain od where mem: "(p, od) \<in> set p2o" and k: "odor_items od = NameConc nm conc"
    by (auto simp: vials2pins_of_def)
  from k have "od = \<lparr>name = nm, log10_conc = conc\<rparr>"
    by (cases od) (simp add: odor_items_def)
  with mem assms(2) show ?thesis by simp
qed

lemma co2_block_distinct:
  "co2_block data d ms pool p2o = Inr (p2o', cp) \<Longrightarrow> distinct (map fst p2o)
     \<Longrightarrow> distinct (map fst p2o')"
  by (auto simp: co2_block_def and_then_eq_Inr Let_def distinct_update
      split: if_splits option.splits)

lemma co2_block_comp:
  "co2_block data d ms pool p2o = Inr (p2o', cp) \<Longrightarrow>
     (''CO2'' \<in> set ms \<longrightarrow> pool \<noteq> [] \<and> cp = Some (last pool))
     \<and> (''CO2'' \<notin> set ms \<longrightarrow> cp = None \<and> p2o' = p2o)"
  by (auto simp: co2_block_def and_then_eq_Inr Let_def split: if_splits option.splits)

lemma pair_config_InrD:
  assumes "pair_config data (odor1, odor2) = Inr cfg"
  obtains acc1 odor_vials odor_pins cp pinss where
    "get_odor_name odor1 \<noteq> get_odor_name odor2"
    "group_step (AList.update (get_odor_name odor2) (get_odor_concs odor2)
        [(get_odor_name odor1, get_odor_concs odor1)]) (get_odor_name odor1)
        (available_group1_valve_pins data) ([], []) = Inr acc1"
    "group_step (AList.update (get_odor_name odor2) (get_odor_concs odor2)
        [(get_odor_name odor1, get_odor_concs odor1)]) (get_odor_name odor2)
        (available_group2_valve_pins data) acc1 = Inr (odor_vials, odor_pins)"
    "co2_block data (AList.update (get_odor_name odor2) (get_odor_concs odor2)
        [(get_odor_name odor1, get_odor_concs odor1)])
        [get_odor_name odor1, get_odor_name odor2] (available_group2_valve_pins data)
        (AList.updates odor_pins odor_vials []) = Inr (pins2odors cfg, cp)"
    "for_each (pins_of_trial data (vials2pins_of (pins2odors cfg)) cp
        (get_odor_name odor1) (get_odor_name odor2))
        (conc_order (get_odor_concs odor1) (get_odor_concs odor2)) = Inr pinss"
    "pinlist_at_each_trial cfg = concat (map (replicate (nat (n_repeats data))) pinss)"
proof -
  from assms have ne: "get_odor_name odor1 \<noteq> get_odor_name odor2"
    by (auto simp: pair_config_def Let_def split: if_splits)
  show ?thesis
    using assms ne that
    by (auto simp: pair_config_def Let_def and_then_eq_Inr getitem_name2concs_first
        getitem_name2concs_second split: if_splits simp del: AList.update.simps)
qed

lemma get_vial_tuple_dual [simp]: "get_vial_tuple False nm conc = Inr (NameConc nm conc)"
  by (auto simp: get_vial_tuple_def)

lemma pins_of_trial_dual:
  "\<not> single_manifold data \<Longrightarrow>
   pins_of_trial data v cp n1 n2 (c1, c2) =
     (case map_of v (NameConc n1 c1) of
        None \<Rightarrow> Inl KeyError
      | Some p1 \<Rightarrow>
          (case map_of v (NameConc n2 c2) of
             None \<Rightarrow> Inl KeyError
           | Some p2 \<Rightarrow>
               if p1 = p2 then Inl AssertionError
               else if ''CO2'' \<in> {n1, n2} then
                 (case cp of
                    None \<Rightarrow> Inl NameError
                  | Some p \<Rightarrow>
                      Inr (sort [p1, p2] @ [group1_balance_pin data, group2_balance_pin data] @ [p]))
               else Inr (sort [p1, p2] @ [group1_balance_pin data, group2_balance_pin data])))"
  by (simp add: pins_of_trial_def getitem_def Let_def split: option.splits)

lemma pins_of_trial_InrD:
  assumes "pins_of_trial data v cp n1 n2 (c1, c2) = Inr t" and "\<not> single_manifold data"
  obtains p1 p2 where
    "map_of v (NameConc n1 c1) = Some p1" "map_of v (NameConc n2 c2) = Some p2" "p1 \<noteq> p2"
    "t = sort [p1, p2] @ [group1_balance_pin data, group2_balance_pin data]
           @ (if ''CO2'' \<in> {n1, n2} then [the cp] else [])"
  using assms
  by (auto simp: pins_of_trial_dual split: option.splits if_splits)

lemma nth_concat_replicate:
  "i < length xs * n \<Longrightarrow> concat (map (replicate n) xs) ! i = xs ! (i div n)"
proof (induction xs arbitrary: i)
  case Nil
  then show ?case by simp
next
  case (Cons x xs)
  show ?case
  proof (cases "i < n")
    case True
    then show ?thesis by (simp add: nth_append)
  next
    case False
    then have n: "0 < n" using Cons.prems by (cases n) auto
    from False Cons.prems have "i - n < length xs * n" by simp
    from Cons.IH [OF this] have "concat (map (replicate n) xs) ! (i - n) = xs ! ((i - n) div n)" .
    moreover from False n have "i div n = Suc ((i - n) div n)"
      by (simp add: le_div_geq)
    ultimately show ?thesis using False by (simp add: nth_append)
  qed
qed

lemma length_concat_replicate:
  "length (concat (map (replicate n) xs)) = length xs * n"
  by (induction xs) simp_all

lemma pair_config_distinct_keys:
  assumes "pair_config data (odor1, odor2) = Inr cfg"
  shows "distinct (map fst (pins2odors cfg))"
proof -
  from assms obtain odor_vials odor_pins cp d where
    "co2_block data d [get_odor_name odor1, get_odor_name odor2]
       (available_group2_valve_pins data) (AList.updates odor_pins odor_vials [])
     = Inr (pins2odors cfg, cp)"
    by (rule pair_config_InrD)
  moreover have "distinct (map fst (AList.updates odor_pins odor_vials ([] :: (int \<times> odor) list)))"
    by (rule distinct_updates) simp
  ultimately show ?thesis by (rule co2_block_distinct)
qed

lemma sort_pair_set: "set (sort [p1, p2 :: int]) = {p1, p2}"
  by auto

lemma make_config_dict_pairs_InrD:
  assumes "make_config_dict_pairs data = Inr cfgs" and "i < length (odor_pairs data)"
  shows "\<not> single_manifold data" and "length cfgs = length (odor_pairs data)"
    and "pair_config data (odor_pairs data ! i) = Inr (cfgs ! i)"
proof -
  from assms(1) show sm: "\<not> single_manifold data"
    by (auto simp: make_config_dict_pairs_def split: if_splits)
  from assms(1) have fe: "for_each (pair_config data) (odor_pairs data) = Inr cfgs"
    by (auto simp: make_config_dict_pairs_def split: if_splits)
  from for_each_Inr_length [OF fe] show "length cfgs = length (odor_pairs data)" .
  from for_each_Inr_nth [OF fe assms(2)]
  show "pair_config data (odor_pairs data ! i) = Inr (cfgs ! i)" .
qed

lemma conc_order_length:
  "length (conc_order concs1 concs2) = length concs1 * length concs2"
  by (simp add: conc_order_def)

lemma conc_order_nth:
  assumes "a < length concs1" and "b < length concs2"
  shows "conc_order concs1 concs2 ! (a * length concs2 + b)
         = (sort_key conc_sort_key concs1 ! a, sort_key conc_sort_key concs2 ! b)"
proof -
  have "a * length concs2 + b < Suc a * length concs2" using assms(2) by simp
  also have "\<dots> \<le> length concs1 * length concs2"
    using assms(1) by (intro mult_le_mono1) simp
  finally have lt: "a * length concs2 + b < length concs1 * length concs2" .
  from assms(2) have nz: "length concs2 \<noteq> 0" by auto
  have d: "(a * length concs2 + b) div length concs2 = a" using assms(2) nz by simp
  have m: "(a * length concs2 + b) mod length concs2 = b" using assms(2) nz by simp
  from lt assms(2) show ?thesis
    by (simp add: conc_order_def product_nth d)
qed

lemma conc_sort_key_id: "conc_sort_key = (\<lambda>c. c)"
  by (auto simp: conc_sort_key_def fun_eq_iff)

lemma set_conc_order:
  "set (conc_order concs1 concs2) = set concs1 \<times> set concs2"
  by (simp add: conc_order_def)

lemma example_pairs_run: "make_config_dict_pairs example_pairs = Inr [example_pairs_config]"
  unfolding example_pairs_config_def by code_simp

section \<open>The pair scheduler: pins of a trial\<close>

text \<open>
  Claim C7. When the pair scheduler succeeds (the hardware is then dual-manifold) and
  neither stream of a pair is named CO2, every trial emitted for the pair is the sorted
  list of two distinct pins, which \<^verbatim>\<open>pins2odors\<close> maps to the vial of stream 1 at a
  concentration of its ramp and to the vial of stream 2 at a concentration of its ramp,
  followed by the balance pins of manifold 1 and manifold 2: four pins. In the scenario
  of the specification there are 8 trials of 4 pins.
\<close>

theorem dual_manifold_trial_pins:
  assumes "make_config_dict_pairs data = Inr cfgs"
    and "i < length (odor_pairs data)"
    and "odor_pairs data ! i = (odor1, odor2)"
    and "get_odor_name odor1 \<noteq> ''CO2''" and "get_odor_name odor2 \<noteq> ''CO2''"
    and "t \<in> set (pinlist_at_each_trial (cfgs ! i))"
  shows "\<exists>c1 c2 p1 p2.
           c1 \<in> set (get_odor_concs odor1) \<and> c2 \<in> set (get_odor_concs odor2)
           \<and> map_of (pins2odors (cfgs ! i)) p1
               = Some \<lparr>name = get_odor_name odor1, log10_conc = c1\<rparr>
           \<and> map_of (pins2odors (cfgs ! i)) p2
               = Some \<lparr>name = get_odor_name odor2, log10_conc = c2\<rparr>
           \<and> p1 \<noteq> p2
           \<and> t = sort [p1, p2] @ [group1_balance_pin data, group2_balance_pin data]
           \<and> length t = 4"
proof -
  let ?cfg = "cfgs ! i"
  let ?n1 = "get_odor_name odor1" and ?n2 = "get_odor_name odor2"
  from make_config_dict_pairs_InrD [OF assms(1,2)] assms(3)
  have sm: "\<not> single_manifold data" and pc: "pair_config data (odor1, odor2) = Inr ?cfg"
    by simp_all
  from pc obtain cp pinss where
    fe: "for_each (pins_of_trial data (vials2pins_of (pins2odors ?cfg)) cp ?n1 ?n2)
           (conc_order (get_odor_concs odor1) (get_odor_concs odor2)) = Inr pinss"
    and pl: "pinlist_at_each_trial ?cfg = concat (map (replicate (nat (n_repeats data))) pinss)"
    by (rule pair_config_InrD)
  have dk: "distinct (map fst (pins2odors ?cfg))"
    using pc by (rule pair_config_distinct_keys)
  from assms(6) pl have "t \<in> set pinss" by auto
  then obtain k where k: "k < length pinss" and t: "t = pinss ! k"
    by (auto simp: in_set_conv_nth)
  let ?co = "conc_order (get_odor_concs odor1) (get_odor_concs odor2)"
  from for_each_Inr_length [OF fe] k have k': "k < length ?co" by simp
  obtain c1 c2 where cc: "?co ! k = (c1, c2)" by (cases "?co ! k")
  from k' cc have "(c1, c2) \<in> set ?co" by (metis nth_mem)
  then have mem: "c1 \<in> set (get_odor_concs odor1)" "c2 \<in> set (get_odor_concs odor2)"
    by (simp_all add: set_conc_order)
  from for_each_Inr_nth [OF fe k'] cc t
  have "pins_of_trial data (vials2pins_of (pins2odors ?cfg)) cp ?n1 ?n2 (c1, c2) = Inr t"
    by simp
  from this sm obtain p1 p2 where
    l1: "map_of (vials2pins_of (pins2odors ?cfg)) (NameConc ?n1 c1) = Some p1"
    and l2: "map_of (vials2pins_of (pins2odors ?cfg)) (NameConc ?n2 c2) = Some p2"
    and ne: "p1 \<noteq> p2"
    and tt: "t = sort [p1, p2] @ [group1_balance_pin data, group2_balance_pin data]
           @ (if ''CO2'' \<in> {?n1, ?n2} then [the cp] else [])"
    by (rule pins_of_trial_InrD)
  from tt assms(4,5) have t4: "t = sort [p1, p2] @ [group1_balance_pin data, group2_balance_pin data]"
    by auto
  then have "length t = 4" by simp
  with mem vials2pins_of_sound [OF l1 dk] vials2pins_of_sound [OF l2 dk] ne t4
  show ?thesis by blast
qed

theorem dual_manifold_trial_pins_witness:
  "make_config_dict_pairs example_pairs = Inr [example_pairs_config]
   \<and> map length (pinlist_at_each_trial example_pairs_config) = [4, 4, 4, 4, 4, 4, 4, 4]
   \<and> (\<exists>c1 c2 p1 p2.
         c1 \<in> set [Some (- 6), Some (- 4)] \<and> c2 \<in> set [Some (- 5), Some (- 3)]
         \<and> map_of (pins2odors example_pairs_config) p1 = Some \<lparr>name = ''X'', log10_conc = c1\<rparr>
         \<and> map_of (pins2odors example_pairs_config) p2 = Some \<lparr>name = ''Y'', log10_conc = c2\<rparr>
         \<and> p1 \<noteq> p2
         \<and> [3, 6, 8, 9] = sort [p1, p2] @ [8, 9])"
proof -
  have "\<exists>c1 c2 p1 p2.
         c1 \<in> set [Some (- 6), Some (- 4)] \<and> c2 \<in> set [Some (- 5), Some (- 3)]
         \<and> map_of (pins2odors example_pairs_config) p1 = Some \<lparr>name = ''X'', log10_conc = c1\<rparr>
         \<and> map_of (pins2odors example_pairs_config) p2 = Some \<lparr>name = ''Y'', log10_conc = c2\<rparr>
         \<and> p1 \<noteq> p2
         \<and> [3, 6, 8, 9] = sort [p1, p2] @ [8, 9]"
    using dual_manifold_trial_pins [OF example_pairs_run, of 0
        "\<lparr>ramp_name = ''X'', log10_concentrations = [Some (- 6), Some (- 4)]\<rparr>"
        "\<lparr>ramp_name = ''Y'', log10_concentrations = [Some (- 5), Some (- 3)]\<rparr>"
        "[3, 6, 8, 9]"]
    by (simp add: example_pairs_def example_pairs_config_def get_odor_name_def
        get_odor_concs_def)
  then show ?thesis
    using example_pairs_run by (simp add: example_pairs_config_def)
qed

section \<open>The pair scheduler: order of the trials\<close>

lemma sorted_wrt_lex_product:
  fixes xs :: "'a::linorder list" and ys :: "'b::linorder list"
  assumes "sorted xs" and "distinct xs" and "sorted ys"
  shows "sorted_wrt (\<lambda>(a, b) (c, d). a < c \<or> (a = c \<and> b \<le> d)) (List.product xs ys)"
  using assms
proof (induction xs)
  case Nil
  then show ?case by simp
next
  case (Cons x xs)
  have "sorted_wrt (\<lambda>(a, b) (c, d). a < c \<or> (a = c \<and> b \<le> d)) (map (Pair x) ys)"
    using Cons.prems(3) by (simp add: sorted_wrt_map)
  moreover have "\<forall>p \<in> set (map (Pair x) ys). \<forall>q \<in> set (List.product xs ys).
      (case p of (a, b) \<Rightarrow> \<lambda>(c, d). a < c \<or> (a = c \<and> b \<le> d)) q"
    using Cons.prems(1,2) by (auto simp: order_less_le)
  ultimately show ?case
    using Cons by (simp add: sorted_wrt_append)
qed

lemma nth_block:
  assumes "k < length xs" and "r < n"
  shows "concat (map (replicate n) xs) ! (k * n + r) = xs ! k"
proof -
  from assms(2) have nz: "n \<noteq> 0" by auto
  have "k * n + r < Suc k * n" using assms(2) by simp
  also have "\<dots> \<le> length xs * n" using assms(1) by (intro mult_le_mono1) simp
  finally have "k * n + r < length xs * n" .
  moreover have "(k * n + r) div n = k" using assms(2) nz by simp
  ultimately show ?thesis by (simp add: nth_concat_replicate)
qed

lemma example_null_run: "make_config_dict_pairs example_null = Inr [example_null_config]"
  unfolding example_null_config_def by code_simp

text \<open>
  Claim C1. When the pair scheduler succeeds and \<^verbatim>\<open>n_repeats\<close> is not negative, the
  trials of a pair come in blocks of \<^verbatim>\<open>n_repeats\<close> identical trials, one block for each
  element of the cross product of the two sorted ramps, stream 1 outside and stream 2
  inside: block \<open>a * |ramp2| + b\<close> holds the pins whose vials are stream 1 at the
  \<open>a\<close>-th and stream 2 at the \<open>b\<close>-th concentration in ascending order. The sort is a
  permutation of the ramp, a null concentration has a key below that of every number,
  and the pair has \<open>|ramp1| * |ramp2| * n_repeats\<close> trials. When the first ramp has no
  repeated value the order of the blocks is lexicographic.
\<close>

theorem pair_trial_order:
  assumes run: "make_config_dict_pairs data = Inr cfgs"
    and i: "i < length (odor_pairs data)"
    and pair: "odor_pairs data ! i = (odor1, odor2)"
    and n0: "0 \<le> n_repeats data"
    and s1: "s1 = sort_key conc_sort_key (get_odor_concs odor1)"
    and s2: "s2 = sort_key conc_sort_key (get_odor_concs odor2)"
    and trials: "trials = pinlist_at_each_trial (cfgs ! i)"
    and n: "n = nat (n_repeats data)"
  shows "sorted s1 \<and> sorted s2
     \<and> mset s1 = mset (get_odor_concs odor1) \<and> mset s2 = mset (get_odor_concs odor2)
     \<and> (\<forall>x. conc_sort_key None < conc_sort_key (Some x))
     \<and> int (length trials)
         = int (length (get_odor_concs odor1)) * int (length (get_odor_concs odor2))
             * n_repeats data
     \<and> (\<forall>a < length s1. \<forall>b < length s2. \<forall>r < n.
           trials ! ((a * length s2 + b) * n + r) = trials ! ((a * length s2 + b) * n)
           \<and> (\<exists>p1 p2.
                 map_of (pins2odors (cfgs ! i)) p1
                   = Some \<lparr>name = get_odor_name odor1, log10_conc = s1 ! a\<rparr>
                 \<and> map_of (pins2odors (cfgs ! i)) p2
                   = Some \<lparr>name = get_odor_name odor2, log10_conc = s2 ! b\<rparr>
                 \<and> p1 \<in> set (trials ! ((a * length s2 + b) * n + r))
                 \<and> p2 \<in> set (trials ! ((a * length s2 + b) * n + r))))
     \<and> (distinct (get_odor_concs odor1) \<longrightarrow>
           sorted_wrt (\<lambda>(a, b) (c, d). a < c \<or> (a = c \<and> b \<le> d)) (List.product s1 s2))"
proof -
  let ?cfg = "cfgs ! i"
  let ?n1 = "get_odor_name odor1" and ?n2 = "get_odor_name odor2"
  let ?c1 = "get_odor_concs odor1" and ?c2 = "get_odor_concs odor2"
  from make_config_dict_pairs_InrD [OF run i] pair
  have sm: "\<not> single_manifold data" and pc: "pair_config data (odor1, odor2) = Inr ?cfg"
    by simp_all
  from pc obtain cp pinss where
    fe: "for_each (pins_of_trial data (vials2pins_of (pins2odors ?cfg)) cp ?n1 ?n2)
           (conc_order ?c1 ?c2) = Inr pinss"
    and pl: "pinlist_at_each_trial ?cfg = concat (map (replicate (nat (n_repeats data))) pinss)"
    by (rule pair_config_InrD)
  have dk: "distinct (map fst (pins2odors ?cfg))"
    using pc by (rule pair_config_distinct_keys)
  have len_pinss: "length pinss = length ?c1 * length ?c2"
    using for_each_Inr_length [OF fe] by (simp add: conc_order_length)
  have tr: "trials = concat (map (replicate n) pinss)"
    using pl trials n by simp
  have srt: "sorted s1" "sorted s2" "mset s1 = mset ?c1" "mset s2 = mset ?c2"
    by (simp_all add: s1 s2 conc_sort_key_id)
  have low: "\<forall>x. conc_sort_key None < conc_sort_key (Some x)"
    by (simp add: conc_sort_key_def)
  have "length trials = length ?c1 * length ?c2 * n"
    by (simp add: tr length_concat_replicate len_pinss)
  then have "int (length trials) = int (length ?c1) * int (length ?c2) * int n"
    by simp
  with n0 n have len: "int (length trials) = int (length ?c1) * int (length ?c2) * n_repeats data"
    by simp
  have blocks: "\<forall>a < length s1. \<forall>b < length s2. \<forall>r < n.
           trials ! ((a * length s2 + b) * n + r) = trials ! ((a * length s2 + b) * n)
           \<and> (\<exists>p1 p2.
                 map_of (pins2odors ?cfg) p1 = Some \<lparr>name = ?n1, log10_conc = s1 ! a\<rparr>
                 \<and> map_of (pins2odors ?cfg) p2 = Some \<lparr>name = ?n2, log10_conc = s2 ! b\<rparr>
                 \<and> p1 \<in> set (trials ! ((a * length s2 + b) * n + r))
                 \<and> p2 \<in> set (trials ! ((a * length s2 + b) * n + r)))"
  proof (intro allI impI)
    fix a b r
    assume a: "a < length s1" and b: "b < length s2" and r: "r < n"
    let ?k = "a * length s2 + b"
    from a b have a': "a < length ?c1" and b': "b < length ?c2" by (simp_all add: s1 s2)
    have ls2: "length s2 = length ?c2" by (simp add: s2)
    have "?k < Suc a * length ?c2" using b' by (simp add: ls2)
    also have "\<dots> \<le> length ?c1 * length ?c2" using a' by (intro mult_le_mono1) simp
    finally have k: "?k < length pinss" by (simp add: len_pinss)
    from r have n_pos: "0 < n" by auto
    have t_r: "trials ! (?k * n + r) = pinss ! ?k"
      unfolding tr using k r by (rule nth_block)
    have t_0: "trials ! (?k * n) = pinss ! ?k"
      using nth_block [OF k n_pos] by (simp add: tr)
    have cc: "conc_order ?c1 ?c2 ! ?k = (s1 ! a, s2 ! b)"
      using conc_order_nth [OF a' b'] by (simp add: s1 s2)
    from k for_each_Inr_length [OF fe] have "?k < length (conc_order ?c1 ?c2)" by simp
    from for_each_Inr_nth [OF fe this] cc
    have "pins_of_trial data (vials2pins_of (pins2odors ?cfg)) cp ?n1 ?n2 (s1 ! a, s2 ! b)
            = Inr (pinss ! ?k)"
      by simp
    from this sm obtain p1 p2 where
      l1: "map_of (vials2pins_of (pins2odors ?cfg)) (NameConc ?n1 (s1 ! a)) = Some p1"
      and l2: "map_of (vials2pins_of (pins2odors ?cfg)) (NameConc ?n2 (s2 ! b)) = Some p2"
      and tt: "pinss ! ?k = sort [p1, p2] @ [group1_balance_pin data, group2_balance_pin data]
           @ (if ''CO2'' \<in> {?n1, ?n2} then [the cp] else [])"
      by (rule pins_of_trial_InrD)
    from tt have "p1 \<in> set (pinss ! ?k)" "p2 \<in> set (pinss ! ?k)"
      by (simp_all add: sort_pair_set del: sort_key_simps)
    with vials2pins_of_sound [OF l1 dk] vials2pins_of_sound [OF l2 dk] t_r t_0
    show "trials ! (?k * n + r) = trials ! (?k * n)
           \<and> (\<exists>p1 p2.
                 map_of (pins2odors ?cfg) p1 = Some \<lparr>name = ?n1, log10_conc = s1 ! a\<rparr>
                 \<and> map_of (pins2odors ?cfg) p2 = Some \<lparr>name = ?n2, log10_conc = s2 ! b\<rparr>
                 \<and> p1 \<in> set (trials ! (?k * n + r))
                 \<and> p2 \<in> set (trials ! (?k * n + r)))"
      by auto
  qed
  have lex: "distinct ?c1 \<longrightarrow>
           sorted_wrt (\<lambda>(a, b) (c, d). a < c \<or> (a = c \<and> b \<le> d)) (List.product s1 s2)"
  proof
    assume "distinct ?c1"
    then have "distinct s1" by (simp add: s1)
    with srt show "sorted_wrt (\<lambda>(a, b) (c, d). a < c \<or> (a = c \<and> b \<le> d)) (List.product s1 s2)"
      by (intro sorted_wrt_lex_product)
  qed
  from srt low len blocks lex show ?thesis by blast
qed

theorem pair_trial_order_witness:
  "make_config_dict_pairs example_null = Inr [example_null_config]
   \<and> sort_key conc_sort_key [Some (- 4), None] = [None, Some (- 4)]
   \<and> int (length (pinlist_at_each_trial example_null_config)) = 2 * 1 * 2
   \<and> pinlist_at_each_trial example_null_config ! 3 = pinlist_at_each_trial example_null_config ! 2
   \<and> (\<exists>p1 p2. map_of (pins2odors example_null_config) p1 = Some \<lparr>name = ''X'', log10_conc = Some (- 4)\<rparr>
         \<and> map_of (pins2odors example_null_config) p2 = Some \<lparr>name = ''Y'', log10_conc = Some (- 5)\<rparr>
         \<and> p1 \<in> set (pinlist_at_each_trial example_null_config ! 3)
         \<and> p2 \<in> set (pinlist_at_each_trial example_null_config ! 3))"
proof -
  let ?o1 = "\<lparr>ramp_name = ''X'', log10_concentrations = [Some (- 4), None]\<rparr>"
  let ?o2 = "\<lparr>ramp_name = ''Y'', log10_concentrations = [Some (- 5)]\<rparr>"
  let ?tr = "pinlist_at_each_trial example_null_config"
  have i: "0 < length (odor_pairs example_null)"
    by (simp add: example_null_def)
  have pr: "odor_pairs example_null ! 0 = (?o1, ?o2)"
    by (simp add: example_null_def)
  have n0: "0 \<le> n_repeats example_null"
    by (simp add: example_null_def example_pairs_def)
  have s1: "[None, Some (- 4)] = sort_key conc_sort_key (get_odor_concs ?o1)"
    by (simp add: conc_sort_key_def get_odor_concs_def)
  have s2: "[Some (- 5)] = sort_key conc_sort_key (get_odor_concs ?o2)"
    by (simp add: get_odor_concs_def)
  have tr: "?tr = pinlist_at_each_trial ([example_null_config] ! 0)"
    by simp
  have n: "2 = nat (n_repeats example_null)"
    by (simp add: example_null_def example_pairs_def)
  note th = pair_trial_order [OF example_null_run i pr n0 s1 s2 tr n]
  from th have len: "int (length ?tr)
      = int (length (get_odor_concs ?o1)) * int (length (get_odor_concs ?o2))
          * n_repeats example_null"
    by blast
  from th have "\<forall>a < length [None, Some (- 4 :: int)]. \<forall>b < length [Some (- 5 :: int)]. \<forall>r < 2.
           ?tr ! ((a * length [Some (- 5 :: int)] + b) * 2 + r)
             = ?tr ! ((a * length [Some (- 5 :: int)] + b) * 2)
           \<and> (\<exists>p1 p2.
                 map_of (pins2odors ([example_null_config] ! 0)) p1
                   = Some \<lparr>name = get_odor_name ?o1, log10_conc = [None, Some (- 4)] ! a\<rparr>
                 \<and> map_of (pins2odors ([example_null_config] ! 0)) p2
                   = Some \<lparr>name = get_odor_name ?o2, log10_conc = [Some (- 5)] ! b\<rparr>
                 \<and> p1 \<in> set (?tr ! ((a * length [Some (- 5 :: int)] + b) * 2 + r))
                 \<and> p2 \<in> set (?tr ! ((a * length [Some (- 5 :: int)] + b) * 2 + r)))"
    by blast
  note inst = this [rule_format, of 1 0 1]
  have eq: "?tr ! 3 = ?tr ! 2"
    using inst [THEN conjunct1] by simp
  have ex: "\<exists>p1 p2. map_of (pins2odors example_null_config) p1
                   = Some \<lparr>name = ''X'', log10_conc = Some (- 4)\<rparr>
         \<and> map_of (pins2odors example_null_config) p2
                   = Some \<lparr>name = ''Y'', log10_conc = Some (- 5)\<rparr>
         \<and> p1 \<in> set (?tr ! 3) \<and> p2 \<in> set (?tr ! 3)"
    using inst [THEN conjunct2] by (simp add: get_odor_name_def)
  note blk = conjI [OF eq ex]
  from len have len': "int (length ?tr) = 2 * 1 * 2"
    by (simp add: get_odor_concs_def example_null_def example_pairs_def)
  from s1 have "sort_key conc_sort_key [Some (- 4), None] = [None, Some (- 4 :: int)]"
    by (simp add: get_odor_concs_def)
  with blk len' example_null_run show ?thesis by blast
qed

section \<open>The pair scheduler: assignment of the pins\<close>

lemma update_fresh: "k \<notin> fst ` set al \<Longrightarrow> AList.update k v al = al @ [(k, v)]"
  by (induction al) auto

lemma updates_fresh:
  "distinct ks \<Longrightarrow> set ks \<inter> fst ` set al = {} \<Longrightarrow> length ks = length vs
     \<Longrightarrow> AList.updates ks vs al = al @ zip ks vs"
proof (induction ks arbitrary: vs al)
  case Nil
  then show ?case by simp
next
  case (Cons k ks)
  then obtain v vs' where vs: "vs = v # vs'" by (cases vs) auto
  from Cons.prems have fresh: "k \<notin> fst ` set al" by auto
  have "AList.updates ks vs' (al @ [(k, v)]) = (al @ [(k, v)]) @ zip ks vs'"
    using Cons.prems vs by (intro Cons.IH) auto
  then show ?case by (simp add: vs update_fresh [OF fresh])
qed

lemma group_step_InrD:
  assumes "group_step d nm pool acc = Inr acc'" and "getitem d nm = Inr concs"
  shows "acc' = (fst acc @ stream_vials nm concs, snd acc @ first_pins nm concs pool)"
  using assms
  by (auto simp: group_step_def first_pins_def stream_vials_def Let_def split: if_splits)

lemma co2_block_InrD:
  assumes "co2_block data d ms pool p2o = Inr (p2o', cp)" and "''CO2'' \<in> set ms"
  obtains pin concs where "co2_pin data = Some pin" "getitem d ''CO2'' = Inr concs"
    "length concs = 1" "pool \<noteq> []"
    "p2o' = AList.update (last pool)
              \<lparr>name = ''air for co2 compensation'', log10_conc = Some 0\<rparr>
              (AList.update pin \<lparr>name = ''CO2'', log10_conc = hd concs\<rparr> p2o)"
  using assms
  by (auto simp: co2_block_def and_then_eq_Inr Let_def split: if_splits option.splits)

text \<open>
  Claim C8. The pair scheduler takes no random input: its result is a function of
  \<^verbatim>\<open>data\<close> alone. On a successful run the pins of the vials are the first (ramp length)
  pins of pool 1 followed by the first (ramp length) pins of pool 2, a CO2 stream
  contributing none; \<^verbatim>\<open>pins2odors\<close> is the dict built from these pins and the vials of
  the two ramps (with the two CO2 entries set afterwards when a stream is CO2), and when
  the pins are distinct it lists them in pool order.
\<close>

theorem pair_pins_first_available:
  assumes run: "make_config_dict_pairs data = Inr cfgs"
    and i: "i < length (odor_pairs data)"
    and pair: "odor_pairs data ! i = (odor1, odor2)"
    and P: "P = first_pins (get_odor_name odor1) (get_odor_concs odor1)
                  (available_group1_valve_pins data)
              @ first_pins (get_odor_name odor2) (get_odor_concs odor2)
                  (available_group2_valve_pins data)"
    and V: "V = stream_vials (get_odor_name odor1) (get_odor_concs odor1)
              @ stream_vials (get_odor_name odor2) (get_odor_concs odor2)"
  shows "length P = length V
     \<and> (''CO2'' \<notin> {get_odor_name odor1, get_odor_name odor2} \<longrightarrow>
          pins2odors (cfgs ! i) = AList.updates P V [])
     \<and> (''CO2'' \<in> {get_odor_name odor1, get_odor_name odor2} \<longrightarrow>
          (\<exists>pin conc. co2_pin data = Some pin
             \<and> pins2odors (cfgs ! i) =
                 AList.update (last (available_group2_valve_pins data))
                   \<lparr>name = ''air for co2 compensation'', log10_conc = Some 0\<rparr>
                   (AList.update pin \<lparr>name = ''CO2'', log10_conc = conc\<rparr>
                      (AList.updates P V []))))
     \<and> (distinct P \<longrightarrow> AList.updates P V [] = zip P V)
     \<and> (\<forall>data'. data' = data \<longrightarrow> make_config_dict_pairs data' = Inr cfgs)"
proof -
  let ?cfg = "cfgs ! i"
  let ?n1 = "get_odor_name odor1" and ?n2 = "get_odor_name odor2"
  let ?c1 = "get_odor_concs odor1" and ?c2 = "get_odor_concs odor2"
  let ?d = "AList.update ?n2 ?c2 [(?n1, ?c1)]"
  from make_config_dict_pairs_InrD [OF run i] pair
  have pc: "pair_config data (odor1, odor2) = Inr ?cfg" by simp
  from pc obtain acc1 odor_vials odor_pins cp where
    ne: "?n1 \<noteq> ?n2"
    and g1: "group_step ?d ?n1 (available_group1_valve_pins data) ([], []) = Inr acc1"
    and g2: "group_step ?d ?n2 (available_group2_valve_pins data) acc1
               = Inr (odor_vials, odor_pins)"
    and cb: "co2_block data ?d [?n1, ?n2] (available_group2_valve_pins data)
               (AList.updates odor_pins odor_vials []) = Inr (pins2odors ?cfg, cp)"
    by (rule pair_config_InrD)
  from group_step_InrD [OF g1 getitem_name2concs_first [OF ne]]
  have a1: "acc1 = (stream_vials ?n1 ?c1, first_pins ?n1 ?c1 (available_group1_valve_pins data))"
    by simp
  from group_step_InrD [OF g2 getitem_name2concs_second] a1
  have pv: "odor_vials = V" "odor_pins = P"
    by (simp_all add: P V)
  have l1: "length (first_pins ?n1 ?c1 (available_group1_valve_pins data))
              = length (stream_vials ?n1 ?c1)"
    using g1 ne
    by (auto simp: group_step_def first_pins_def stream_vials_def Let_def
        getitem_name2concs_first and_then_eq_Inr split: if_splits simp del: AList.update.simps)
  have l2: "length (first_pins ?n2 ?c2 (available_group2_valve_pins data))
              = length (stream_vials ?n2 ?c2)"
    using g2
    by (auto simp: group_step_def first_pins_def stream_vials_def Let_def
        getitem_name2concs_second and_then_eq_Inr split: if_splits simp del: AList.update.simps)
  from l1 l2 have len: "length P = length V" by (simp add: P V)
  have no_co2: "''CO2'' \<notin> {?n1, ?n2} \<longrightarrow> pins2odors ?cfg = AList.updates P V []"
    using co2_block_comp [OF cb] pv by auto
  have with_co2: "''CO2'' \<in> {?n1, ?n2} \<longrightarrow>
          (\<exists>pin conc. co2_pin data = Some pin
             \<and> pins2odors ?cfg =
                 AList.update (last (available_group2_valve_pins data))
                   \<lparr>name = ''air for co2 compensation'', log10_conc = Some 0\<rparr>
                   (AList.update pin \<lparr>name = ''CO2'', log10_conc = conc\<rparr>
                      (AList.updates P V [])))"
  proof
    assume "''CO2'' \<in> {?n1, ?n2}"
    then have "''CO2'' \<in> set [?n1, ?n2]" by simp
    from cb this show "\<exists>pin conc. co2_pin data = Some pin
             \<and> pins2odors ?cfg =
                 AList.update (last (available_group2_valve_pins data))
                   \<lparr>name = ''air for co2 compensation'', log10_conc = Some 0\<rparr>
                   (AList.update pin \<lparr>name = ''CO2'', log10_conc = conc\<rparr>
                      (AList.updates P V []))"
      by (rule co2_block_InrD) (auto simp: pv)
  qed
  have zip: "distinct P \<longrightarrow> AList.updates P V [] = zip P V"
    using updates_fresh [of P "[]" V] len by simp
  from len no_co2 with_co2 zip run show ?thesis by blast
qed

theorem pair_pins_first_available_witness:
  "make_config_dict_pairs example_pairs = Inr [example_pairs_config]
   \<and> pins2odors example_pairs_config =
       zip [2, 3, 5, 6]
         [\<lparr>name = ''X'', log10_conc = Some (- 6)\<rparr>, \<lparr>name = ''X'', log10_conc = Some (- 4)\<rparr>,
          \<lparr>name = ''Y'', log10_conc = Some (- 5)\<rparr>, \<lparr>name = ''Y'', log10_conc = Some (- 3)\<rparr>]"
proof -
  let ?o1 = "\<lparr>ramp_name = ''X'', log10_concentrations = [Some (- 6), Some (- 4)]\<rparr>"
  let ?o2 = "\<lparr>ramp_name = ''Y'', log10_concentrations = [Some (- 5), Some (- 3)]\<rparr>"
  let ?V = "[\<lparr>name = ''X'', log10_conc = Some (- 6)\<rparr>, \<lparr>name = ''X'', log10_conc = Some (- 4)\<rparr>,
          \<lparr>name = ''Y'', log10_conc = Some (- 5)\<rparr>, \<lparr>name = ''Y'', log10_conc = Some (- 3)\<rparr>]"
  have i: "0 < length (odor_pairs example_pairs)"
    by (simp add: example_pairs_def)
  have pr: "odor_pairs example_pairs ! 0 = (?o1, ?o2)"
    by (simp add: example_pairs_def)
  have P: "[2, 3, 5, 6] = first_pins (get_odor_name ?o1) (get_odor_concs ?o1)
                  (available_group1_valve_pins example_pairs)
              @ first_pins (get_odor_name ?o2) (get_odor_concs ?o2)
                  (available_group2_valve_pins example_pairs)"
    by (simp add: first_pins_def get_odor_name_def get_odor_concs_def example_pairs_def)
  have V: "?V = stream_vials (get_odor_name ?o1) (get_odor_concs ?o1)
              @ stream_vials (get_odor_name ?o2) (get_odor_concs ?o2)"
    by (simp add: stream_vials_def get_odor_name_def get_odor_concs_def)
  note th = pair_pins_first_available [OF example_pairs_run i pr P V]
  have no: "''CO2'' \<notin> {get_odor_name ?o1, get_odor_name ?o2}"
    by (simp add: get_odor_name_def)
  have d: "distinct [2, 3, 5, 6 :: int]" by simp
  from th no d have "pins2odors ([example_pairs_config] ! 0) = zip [2, 3, 5, 6] ?V"
    by metis
  with example_pairs_run show ?thesis by simp
qed

lemma example_co2_first_run:
  "make_config_dict_pairs example_co2_first = Inr [example_co2_first_config]"
  unfolding example_co2_first_config_def by code_simp

section \<open>The pair scheduler: the compensation pin of a CO2 stream\<close>

text \<open>
  Claim C4, at a pair whose first stream is CO2. The run succeeds; the pool of the CO2
  stream is pool 1, whose last pin is 4, but the air-compensation entry is put on pin 7,
  the last pin of pool 2, and it is pin 7 that every trial holds. Line 122 reads
  \<^verbatim>\<open>available_group_valve_pins\<close> after the loop of line 90 has ended, where it is bound
  to the pool of the second stream whichever stream is CO2.
\<close>

theorem co2_first_compensation_pin:
  "get_odor_name (fst (odor_pairs example_co2_first ! 0)) = ''CO2''
   \<and> make_config_dict_pairs example_co2_first = Inr [example_co2_first_config]
   \<and> last (available_group1_valve_pins example_co2_first) = 4
   \<and> map_of (pins2odors example_co2_first_config) 4 = None
   \<and> last (available_group2_valve_pins example_co2_first) = 7
   \<and> map_of (pins2odors example_co2_first_config) 7
       = Some \<lparr>name = ''air for co2 compensation'', log10_conc = Some 0\<rparr>
   \<and> list_all (\<lambda>t. 7 \<in> set t \<and> 4 \<notin> set t) (pinlist_at_each_trial example_co2_first_config)"
  using example_co2_first_run
  by (simp add: example_co2_first_def example_pairs_def example_co2_first_config_def
      get_odor_name_def)

section \<open>The panel scheduler: sampling and shuffling\<close>

lemma draw_sample_Suc:
  "pool \<noteq> [] \<Longrightarrow> draw g = (r, g1) \<Longrightarrow>
   fst (draw_sample g pool (Suc k)) =
     pool ! (r mod length pool)
       # fst (draw_sample g1 (take (r mod length pool) pool @ drop (Suc (r mod length pool)) pool) k)"
  by (simp add: Let_def case_prod_beta)

lemma draw_sample_length:
  "k \<le> length pool \<Longrightarrow> length (fst (draw_sample g pool k)) = k"
proof (induction k arbitrary: g pool)
  case 0
  then show ?case by simp
next
  case (Suc k)
  then have ne: "pool \<noteq> []" by auto
  obtain r g1 where d: "draw g = (r, g1)" by (cases "draw g")
  let ?i = "r mod length pool"
  let ?rest = "take ?i pool @ drop (Suc ?i) pool"
  from ne have i: "?i < length pool" by simp
  then have "length ?rest = length pool - 1" by simp
  with Suc.prems have "k \<le> length ?rest" by simp
  from Suc.IH [OF this, of g1] show ?case
    using ne by (simp add: draw_sample_Suc [OF ne d] del: draw_sample.simps)
qed

lemma draw_sample_mset:
  "mset (fst (draw_sample g pool k)) \<subseteq># mset pool"
proof (induction k arbitrary: g pool)
  case 0
  then show ?case by simp
next
  case (Suc k)
  show ?case
  proof (cases "pool = []")
    case True
    then show ?thesis by simp
  next
    case False
    obtain r g1 where d: "draw g = (r, g1)" by (cases "draw g")
    let ?i = "r mod length pool"
    let ?rest = "take ?i pool @ drop (Suc ?i) pool"
    from False have i: "?i < length pool" by simp
    have "mset pool = mset (take ?i pool @ pool ! ?i # drop (Suc ?i) pool)"
      using id_take_nth_drop [OF i] by simp
    then have split: "mset pool = add_mset (pool ! ?i) (mset ?rest)"
      by simp
    have "mset (fst (draw_sample g1 ?rest k)) \<subseteq># mset ?rest" by (rule Suc.IH)
    then have "add_mset (pool ! ?i) (mset (fst (draw_sample g1 ?rest k))) \<subseteq># mset pool"
      by (simp add: split)
    then show ?thesis by (simp add: draw_sample_Suc [OF False d] del: draw_sample.simps)
  qed
qed

lemma draw_sample_set: "set (fst (draw_sample g pool k)) \<subseteq> set pool"
  using set_mset_mono [OF draw_sample_mset [of g pool k]] by simp

lemma draw_sample_distinct: "distinct pool \<Longrightarrow> distinct (fst (draw_sample g pool k))"
proof (induction k arbitrary: g pool)
  case 0
  then show ?case by simp
next
  case (Suc k)
  show ?case
  proof (cases "pool = []")
    case True
    then show ?thesis by simp
  next
    case False
    obtain r g1 where d: "draw g = (r, g1)" by (cases "draw g")
    let ?i = "r mod length pool"
    let ?rest = "take ?i pool @ drop (Suc ?i) pool"
    from False have i: "?i < length pool" by simp
    have "distinct (take ?i pool @ pool ! ?i # drop (Suc ?i) pool)"
      using id_take_nth_drop [OF i] Suc.prems by simp
    then have dr: "distinct ?rest" and fresh: "pool ! ?i \<notin> set ?rest"
      by auto
    from fresh draw_sample_set [of g1 ?rest k]
    have "pool ! ?i \<notin> set (fst (draw_sample g1 ?rest k))" by blast
    with Suc.IH [OF dr, of g1] show ?thesis
      by (simp add: draw_sample_Suc [OF False d] del: draw_sample.simps)
  qed
qed

lemma shuffle_mset: "mset (fst (shuffle g xs)) = mset xs"
proof -
  have "mset (fst (shuffle g xs)) \<subseteq># mset xs"
    by (simp add: shuffle_def draw_sample_mset)
  moreover have "size (mset (fst (shuffle g xs))) = size (mset xs)"
    by (simp add: shuffle_def draw_sample_length)
  ultimately show ?thesis
    using mset_subset_size [of "mset (fst (shuffle g xs))" "mset xs"]
    by (auto simp: subset_mset.le_less)
qed

lemma shuffle_length: "length (fst (shuffle g xs)) = length xs"
  by (simp add: shuffle_def draw_sample_length)

text \<open>
  The draws reach every outcome of the library functions: any arrangement of elements at
  distinct positions of the population is a sample, and any permutation is a shuffle.
\<close>

lemma draw_sample_complete:
  "mset ys \<subseteq># mset pool \<Longrightarrow> \<exists>g. fst (draw_sample g pool (length ys)) = ys"
proof (induction ys arbitrary: pool)
  case Nil
  then show ?case by simp
next
  case (Cons y ys)
  from Cons.prems have "y \<in># mset pool"
    by (simp add: insert_subset_eq_iff)
  then have "y \<in> set pool" by simp
  then obtain i where i: "i < length pool" and y: "pool ! i = y"
    by (auto simp: in_set_conv_nth)
  let ?rest = "take i pool @ drop (Suc i) pool"
  from i have ne: "pool \<noteq> []" by auto
  have "mset pool = mset (take i pool @ pool ! i # drop (Suc i) pool)"
    using id_take_nth_drop [OF i] by simp
  then have "mset pool = add_mset y (mset ?rest)" by (simp add: y)
  with Cons.prems have "mset ys \<subseteq># mset ?rest" by simp
  from Cons.IH [OF this] obtain g1 where g1: "fst (draw_sample g1 ?rest (length ys)) = ys" ..
  have d: "draw (i # g1) = (i, g1)" by simp
  from i have m: "i mod length pool = i" by simp
  have "fst (draw_sample (i # g1) pool (length (y # ys))) = y # ys"
    using draw_sample_Suc [OF ne d, of "length ys"] g1 by (simp add: m y del: draw_sample.simps)
  then show ?case ..
qed

lemma shuffle_complete: "mset ys = mset xs \<Longrightarrow> \<exists>g. fst (shuffle g xs) = ys"
proof -
  assume a: "mset ys = mset xs"
  then have "mset ys \<subseteq># mset xs" by simp
  from draw_sample_complete [OF this] obtain g where "fst (draw_sample g xs (length ys)) = ys" ..
  moreover from a have "length ys = length xs" by (rule mset_eq_length)
  ultimately show ?thesis by (auto simp: shuffle_def)
qed

section \<open>The panel scheduler: the empty panel\<close>

lemma sample_zero [simp]: "sample g pool 0 = Inr ([], g)"
  by (simp add: sample_def)

lemma expand_trials_Nil [simp]: "expand_trials [] n = []"
  by (simp add: expand_trials_def)

lemma co2_rewire_no_odors [simp]: "odors data = [] \<Longrightarrow> co2_rewire data p2o pl = Inr (p2o, pl)"
  by (simp add: co2_rewire_def)

text \<open>
  Claim C9. For a panel with an empty list of odors: without
  \<^verbatim>\<open>randomize_presentation_order\<close> the scheduler fails, on the assertion that there is
  exactly one odor; with the flag supplied (a value that passes the check of line 105)
  it succeeds and returns an empty \<^verbatim>\<open>pins2odors\<close> and an empty trial list, the balance
  pin step adding no trial to none.
\<close>

theorem empty_panel:
  assumes "odors data = []"
  shows "(randomize_presentation_order data = None \<longrightarrow>
            make_config_dict_panel add_balance_pins g data = Inl AssertionError)
     \<and> (\<forall>v. randomize_presentation_order data = Some v \<and> in_True_False v
              \<and> add_balance_pins [] = [] \<longrightarrow>
            (\<exists>ws. make_config_dict_panel add_balance_pins g data
                    = Inr (\<lparr>pins2odors = [], pinlist_at_each_trial = []\<rparr>, ws)))"
  using assms
  by (auto simp: make_config_dict_panel_def panel_before_co2_def resolve_randomize_def
      resolve_n_repeats_def shuffle_def Let_def split: option.splits)

theorem empty_panel_witness:
  "make_config_dict_panel (map (\<lambda>pl. pl @ [9])) [3, 1]
      (example_panel\<lparr>odors := [], randomize_presentation_order := None\<rparr>) = Inl AssertionError
   \<and> (\<exists>ws. make_config_dict_panel (map (\<lambda>pl. pl @ [9])) [3, 1] (example_panel\<lparr>odors := []\<rparr>)
             = Inr (\<lparr>pins2odors = [], pinlist_at_each_trial = []\<rparr>, ws))"
proof -
  let ?abp = "map (\<lambda>pl. pl @ [9 :: int])"
  have e1: "odors (example_panel\<lparr>odors := [], randomize_presentation_order := None\<rparr>) = []"
    by simp
  have e2: "odors (example_panel\<lparr>odors := []\<rparr>) = []" by simp
  have f: "randomize_presentation_order (example_panel\<lparr>odors := []\<rparr>) = Some (PBool False)
      \<and> in_True_False (PBool False) \<and> ?abp [] = []"
    by (simp add: example_panel_def in_True_False_def)
  from empty_panel [OF e1, of ?abp "[3, 1]"]
  have a: "make_config_dict_panel ?abp [3, 1]
      (example_panel\<lparr>odors := [], randomize_presentation_order := None\<rparr>) = Inl AssertionError"
    by simp
  from empty_panel [OF e2, of ?abp "[3, 1]"] f
  have b: "\<exists>ws. make_config_dict_panel ?abp [3, 1] (example_panel\<lparr>odors := []\<rparr>)
             = Inr (\<lparr>pins2odors = [], pinlist_at_each_trial = []\<rparr>, ws)"
    by blast
  from a b show ?thesis by blast
qed

section \<open>The panel scheduler: the randomization flag\<close>

lemma float_eq_int_iff: "float_eq_int f i \<longleftrightarrow> f = Finite (of_int i)"
  by (cases f) auto

lemma in_True_False_iff:
  "in_True_False v \<longleftrightarrow> v = PBool True \<or> v = PBool False \<or> v = PInt 1 \<or> v = PInt 0
               \<or> v = PFloat (Finite 1) \<or> v = PFloat (Finite 0)"
  by (cases v) (auto simp: in_True_False_def float_eq_int_iff)

lemma panel_before_co2_InrD:
  assumes "panel_before_co2 abp g data = Inr (p2o, pre, ws)"
  obtains rpo w1 n w2 tp where
    "length (odors data) \<le> length (available_valve_pins data)"
    "resolve_randomize data = Inr (rpo, w1)"
    "resolve_n_repeats data rpo = (n, w2)"
    "p2o = AList.updates
             (fst (draw_sample g (available_valve_pins data) (length (odors data))))
             (odors data) []"
    "mset tp = mset (fst (draw_sample g (available_valve_pins data) (length (odors data))))"
    "pre = abp (expand_trials tp n)"
    "ws = w1 @ w2"
proof -
  let ?op = "fst (draw_sample g (available_valve_pins data) (length (odors data)))"
  let ?g1 = "snd (draw_sample g (available_valve_pins data) (length (odors data)))"
  from assms have le: "length (odors data) \<le> length (available_valve_pins data)"
    by (auto simp: panel_before_co2_def Let_def split: if_splits)
  from assms le obtain rpo w1 where rr: "resolve_randomize data = Inr (rpo, w1)"
    by (cases "resolve_randomize data")
      (auto simp: panel_before_co2_def Let_def sample_def)
  obtain n w2 where rn: "resolve_n_repeats data rpo = (n, w2)"
    by (cases "resolve_n_repeats data rpo")
  let ?tp = "if truthy rpo then fst (shuffle ?g1 ?op) else ?op"
  from assms le rr rn have
    "p2o = AList.updates ?op (odors data) []" "pre = abp (expand_trials ?tp n)" "ws = w1 @ w2"
    by (auto simp: panel_before_co2_def Let_def sample_def case_prod_beta)
  moreover have "mset ?tp = mset ?op" by (simp add: shuffle_mset)
  ultimately show ?thesis using le rr rn that by blast
qed

lemma make_config_dict_panel_InrD:
  assumes "make_config_dict_panel abp g data = Inr (cfg, ws)"
  obtains p2o pre where
    "panel_before_co2 abp g data = Inr (p2o, pre, ws)"
    "co2_rewire data p2o pre = Inr (pins2odors cfg, pinlist_at_each_trial cfg)"
  using assms
  by (auto simp: make_config_dict_panel_def and_then_eq_Inr)

lemma bad_flag_fatal:
  assumes "randomize_presentation_order data = Some v" and "\<not> in_True_False v"
  shows "make_config_dict_panel abp g data = Inl AssertionError"
  using assms
  by (simp add: make_config_dict_panel_def panel_before_co2_def resolve_randomize_def
      sample_def Let_def case_prod_beta)

text \<open>
  Claim C5 as stated fails: the integer 1 is not a boolean, yet the assertion
  \<^verbatim>\<open>randomize_presentation_order in (True, False)\<close> accepts it (\<^verbatim>\<open>1 == True\<close> in
  Python), and the run succeeds, shuffling the odors.
\<close>

theorem randomize_flag_counterexample:
  "\<not> is_bool (PInt 1)
   \<and> make_config_dict_panel (map (\<lambda>pl. pl @ [9])) [0, 0, 0, 1, 0, 0]
        (example_panel\<lparr>randomize_presentation_order := Some (PInt 1)\<rparr>)
       = Inr (example_panel_int_config, [OnlyRandomizesAcrossOdors])"
  unfolding example_panel_int_config_def example_panel_def is_bool_def by code_simp

lemma default_many:
  assumes "randomize_presentation_order data = None" and "1 < length (odors data)"
  shows "resolve_randomize data = Inr (PBool True, [DefaultingToRandomize])"
  using assms by (simp add: resolve_randomize_def)

lemma default_single:
  assumes "randomize_presentation_order data = None" and "length (odors data) = 1"
  shows "resolve_randomize data = Inr (PBool False, [])"
  using assms by (simp add: resolve_randomize_def)

lemma length_expand_trials: "length (expand_trials tp n) = length tp * nat n"
  by (simp add: expand_trials_def length_concat comp_def sum_list_triv)

lemma co2_rewire_length:
  "co2_rewire data p2o pre = Inr (p2o', out) \<Longrightarrow> length out = length pre"
  by (auto simp: co2_rewire_def Let_def split: if_splits option.splits)

lemma panel_length:
  assumes run: "make_config_dict_panel abp g data = Inr (cfg, ws)"
    and abp: "\<forall>tl. length (abp tl) = length tl"
  obtains rpo w1 n w2 where
    "resolve_randomize data = Inr (rpo, w1)" "resolve_n_repeats data rpo = (n, w2)"
    "ws = w1 @ w2"
    "length (pinlist_at_each_trial cfg) = length (odors data) * nat n"
proof -
  from run obtain p2o pre where
    b: "panel_before_co2 abp g data = Inr (p2o, pre, ws)"
    and c: "co2_rewire data p2o pre = Inr (pins2odors cfg, pinlist_at_each_trial cfg)"
    by (rule make_config_dict_panel_InrD)
  from b obtain rpo w1 n w2 tp where
    le: "length (odors data) \<le> length (available_valve_pins data)"
    and rr: "resolve_randomize data = Inr (rpo, w1)"
    and rn: "resolve_n_repeats data rpo = (n, w2)"
    and tp: "mset tp = mset (fst (draw_sample g (available_valve_pins data) (length (odors data))))"
    and pre: "pre = abp (expand_trials tp n)"
    and ws: "ws = w1 @ w2"
    by (rule panel_before_co2_InrD)
  from tp have "length tp = length (fst (draw_sample g (available_valve_pins data) (length (odors data))))"
    by (rule mset_eq_length)
  with le have "length tp = length (odors data)" by (simp add: draw_sample_length)
  with co2_rewire_length [OF c] pre abp
  have "length (pinlist_at_each_trial cfg) = length (odors data) * nat n"
    by (simp add: length_expand_trials)
  with rr rn ws show ?thesis by (rule that)
qed

lemma single_plain_runs:
  assumes "randomize_presentation_order data = None" and "length (odors data) = 1"
    and "panel_n_repeats data = None" and "available_valve_pins data \<noteq> []"
    and "\<forall>od \<in> set (odors data). name od \<noteq> ''CO2''"
  shows "\<exists>cfg. make_config_dict_panel abp g data = Inr (cfg, [])"
proof -
  from assms(4) have "1 \<le> length (available_valve_pins data)"
    by (cases "available_valve_pins data") auto
  moreover from assms(5) have "filter (\<lambda>od. name od = ''CO2'') (odors data) = []"
    by (auto simp: filter_empty_conv)
  ultimately show ?thesis using assms(1,2,3,4)
    by (simp add: make_config_dict_panel_def panel_before_co2_def resolve_randomize_def
        resolve_n_repeats_def sample_def co2_rewire_def Let_def case_prod_beta)
qed

text \<open>
  Claim C5, amended. If \<^verbatim>\<open>randomize_presentation_order\<close> is present it must be equal to
  \<^verbatim>\<open>True\<close> or \<^verbatim>\<open>False\<close>, which holds of the booleans, of the integers 1 and 0 and
  of the floats 1.0 and 0.0, and of no other value (no other number, no string, null,
  sequence, mapping or other object); any other value is fatal, and an accepted value is
  used as given. If it is absent and
  there is more than one odor, it defaults to true and a successful run carries the
  warning. If it is absent and there is exactly one odor, it defaults to false with no
  warning; with \<^verbatim>\<open>n_repeats\<close> absent too a successful run has no warning and exactly
  one trial, and a run on a non-empty pool with an odor not named CO2 is successful. The
  balance pin step is taken to keep the number of trials.
\<close>

theorem randomize_flag_resolution:
  assumes abp: "\<forall>tl. length (add_balance_pins tl) = length tl"
  shows "(\<forall>v. randomize_presentation_order data = Some v \<longrightarrow>
            (in_True_False v \<longleftrightarrow> v = PBool True \<or> v = PBool False \<or> v = PInt 1 \<or> v = PInt 0
               \<or> v = PFloat (Finite 1) \<or> v = PFloat (Finite 0))
            \<and> (\<not> in_True_False v \<longrightarrow>
                  make_config_dict_panel add_balance_pins g data = Inl AssertionError)
            \<and> (in_True_False v \<longrightarrow> resolve_randomize data = Inr (v, [])))
     \<and> (randomize_presentation_order data = None \<and> 1 < length (odors data) \<longrightarrow>
            resolve_randomize data = Inr (PBool True, [DefaultingToRandomize])
            \<and> (\<forall>cfg ws. make_config_dict_panel add_balance_pins g data = Inr (cfg, ws) \<longrightarrow>
                  DefaultingToRandomize \<in> set ws))
     \<and> (randomize_presentation_order data = None \<and> length (odors data) = 1 \<longrightarrow>
            resolve_randomize data = Inr (PBool False, [])
            \<and> (panel_n_repeats data = None \<longrightarrow>
                  (\<forall>cfg ws. make_config_dict_panel add_balance_pins g data = Inr (cfg, ws) \<longrightarrow>
                     ws = [] \<and> length (pinlist_at_each_trial cfg) = 1)
                  \<and> (available_valve_pins data \<noteq> []
                       \<and> (\<forall>od \<in> set (odors data). name od \<noteq> ''CO2'') \<longrightarrow>
                       (\<exists>cfg. make_config_dict_panel add_balance_pins g data = Inr (cfg, [])))))"
proof (intro conjI allI impI)
  fix v
  assume "randomize_presentation_order data = Some v"
  show "in_True_False v \<longleftrightarrow> v = PBool True \<or> v = PBool False \<or> v = PInt 1 \<or> v = PInt 0
               \<or> v = PFloat (Finite 1) \<or> v = PFloat (Finite 0)"
    by (rule in_True_False_iff)
next
  fix v
  assume "randomize_presentation_order data = Some v" "\<not> in_True_False v"
  then show "make_config_dict_panel add_balance_pins g data = Inl AssertionError"
    by (rule bad_flag_fatal)
next
  fix v
  assume "randomize_presentation_order data = Some v" "in_True_False v"
  then show "resolve_randomize data = Inr (v, [])"
    by (simp add: resolve_randomize_def)
next
  assume "randomize_presentation_order data = None \<and> 1 < length (odors data)"
  then show "resolve_randomize data = Inr (PBool True, [DefaultingToRandomize])"
    by (simp add: default_many)
next
  fix cfg ws
  assume a: "randomize_presentation_order data = None \<and> 1 < length (odors data)"
    and run: "make_config_dict_panel add_balance_pins g data = Inr (cfg, ws)"
  from run abp obtain rpo w1 n w2 where
    "resolve_randomize data = Inr (rpo, w1)" "ws = w1 @ w2"
    by (rule panel_length)
  with a show "DefaultingToRandomize \<in> set ws" by (auto simp: default_many)
next
  assume "randomize_presentation_order data = None \<and> length (odors data) = 1"
  then show "resolve_randomize data = Inr (PBool False, [])"
    by (simp add: default_single)
next
  fix cfg ws
  assume a: "randomize_presentation_order data = None \<and> length (odors data) = 1"
    and nr: "panel_n_repeats data = None"
    and run: "make_config_dict_panel add_balance_pins g data = Inr (cfg, ws)"
  from run abp obtain rpo w1 n w2 where
    rr: "resolve_randomize data = Inr (rpo, w1)" and rn: "resolve_n_repeats data rpo = (n, w2)"
    and ws: "ws = w1 @ w2"
    and len: "length (pinlist_at_each_trial cfg) = length (odors data) * nat n"
    by (rule panel_length)
  from a rr have "rpo = PBool False" "w1 = []" by (simp_all add: default_single)
  moreover from rn nr have "n = 1" "w2 = []" by (simp_all add: resolve_n_repeats_def)
  ultimately have both: "ws = [] \<and> length (pinlist_at_each_trial cfg) = 1"
    using ws len a by simp
  from both show "ws = []" by simp
  from both show "length (pinlist_at_each_trial cfg) = 1" by simp
next
  assume "randomize_presentation_order data = None \<and> length (odors data) = 1"
    "panel_n_repeats data = None"
    "available_valve_pins data \<noteq> [] \<and> (\<forall>od \<in> set (odors data). name od \<noteq> ''CO2'')"
  then show "\<exists>cfg. make_config_dict_panel add_balance_pins g data = Inr (cfg, [])"
    by (simp add: single_plain_runs)
qed

theorem randomize_flag_resolution_witness:
  "make_config_dict_panel (map (\<lambda>pl. pl @ [9])) [2, 0, 1]
      (example_panel\<lparr>randomize_presentation_order := Some (PStr ''yes'')\<rparr>) = Inl AssertionError
   \<and> resolve_randomize (example_panel\<lparr>randomize_presentation_order := Some (PBool True)\<rparr>)
       = Inr (PBool True, [])
   \<and> resolve_randomize
         (example_panel\<lparr>randomize_presentation_order := Some (PFloat (Finite 1))\<rparr>)
       = Inr (PFloat (Finite 1), [])
   \<and> make_config_dict_panel (map (\<lambda>pl. pl @ [9])) [2, 0, 1]
         (example_panel\<lparr>randomize_presentation_order := Some (PFloat (Finite (1 / 2)))\<rparr>)
       = Inl AssertionError
   \<and> resolve_randomize (example_panel\<lparr>randomize_presentation_order := None\<rparr>)
       = Inr (PBool True, [DefaultingToRandomize])
   \<and> resolve_randomize example_single = Inr (PBool False, [])
   \<and> (\<exists>cfg. make_config_dict_panel (map (\<lambda>pl. pl @ [9])) [2, 0, 1] example_single = Inr (cfg, [])
          \<and> length (pinlist_at_each_trial cfg) = 1)"
proof -
  let ?abp = "map (\<lambda>pl. pl @ [9 :: int])"
  let ?g = "[2, 0, 1 :: nat]"
  have abp: "\<forall>tl. length (?abp tl) = length tl" by simp
  let ?bad = "example_panel\<lparr>randomize_presentation_order := Some (PStr ''yes'')\<rparr>"
  let ?good = "example_panel\<lparr>randomize_presentation_order := Some (PBool True)\<rparr>"
  let ?many = "example_panel\<lparr>randomize_presentation_order := None\<rparr>"
  have bad: "randomize_presentation_order ?bad = Some (PStr ''yes'')"
      "\<not> in_True_False (PStr ''yes'')"
    by (simp_all add: in_True_False_def)
  have good: "randomize_presentation_order ?good = Some (PBool True)" "in_True_False (PBool True)"
    by (simp_all add: in_True_False_def)
  have many: "randomize_presentation_order ?many = None \<and> 1 < length (odors ?many)"
    by (simp add: example_panel_def)
  have single: "randomize_presentation_order example_single = None
        \<and> length (odors example_single) = 1"
      "panel_n_repeats example_single = None"
      "available_valve_pins example_single \<noteq> []
        \<and> (\<forall>od \<in> set (odors example_single). name od \<noteq> ''CO2'')"
    by (simp_all add: example_single_def)
  from randomize_flag_resolution [OF abp, of ?bad ?g] bad
  have 1: "make_config_dict_panel ?abp ?g ?bad = Inl AssertionError" by blast
  from randomize_flag_resolution [OF abp, of ?good ?g] good
  have 2: "resolve_randomize ?good = Inr (PBool True, [])" by blast
  let ?one = "example_panel\<lparr>randomize_presentation_order := Some (PFloat (Finite 1))\<rparr>"
  let ?half = "example_panel\<lparr>randomize_presentation_order := Some (PFloat (Finite (1 / 2)))\<rparr>"
  have one: "randomize_presentation_order ?one = Some (PFloat (Finite 1))"
      "in_True_False (PFloat (Finite 1))"
    by (simp_all add: in_True_False_def)
  have half: "randomize_presentation_order ?half = Some (PFloat (Finite (1 / 2)))"
      "\<not> in_True_False (PFloat (Finite (1 / 2)))"
    by (simp_all add: in_True_False_def)
  from randomize_flag_resolution [OF abp, of ?one ?g] one
  have f1: "resolve_randomize ?one = Inr (PFloat (Finite 1), [])" by blast
  from randomize_flag_resolution [OF abp, of ?half ?g] half
  have f2: "make_config_dict_panel ?abp ?g ?half = Inl AssertionError" by blast
  from randomize_flag_resolution [OF abp, of ?many ?g] many
  have 3: "resolve_randomize ?many = Inr (PBool True, [DefaultingToRandomize])" by blast
  from randomize_flag_resolution [OF abp, of example_single ?g] single
  have 4: "resolve_randomize example_single = Inr (PBool False, [])"
    and 5: "\<forall>cfg ws. make_config_dict_panel ?abp ?g example_single = Inr (cfg, ws) \<longrightarrow>
                     ws = [] \<and> length (pinlist_at_each_trial cfg) = 1"
    and 6: "\<exists>cfg. make_config_dict_panel ?abp ?g example_single = Inr (cfg, [])"
    by blast+
  from 5 6 have "\<exists>cfg. make_config_dict_panel ?abp ?g example_single = Inr (cfg, [])
          \<and> length (pinlist_at_each_trial cfg) = 1"
    by blast
  with 1 2 3 4 f1 f2 show ?thesis by blast
qed

section \<open>The panel scheduler: repeats stay together\<close>

lemma expand_trials_nth:
  assumes "k < length tp" and "r < nat n"
  shows "expand_trials tp n ! (k * nat n + r) = [tp ! k]"
proof -
  have "expand_trials tp n = concat (map (replicate (nat n)) (map (\<lambda>p. [p]) tp))"
    by (simp add: expand_trials_def comp_def)
  with nth_block [of k "map (\<lambda>p. [p]) tp" r "nat n"] assms show ?thesis by simp
qed

lemma block_index:
  assumes "k < (N :: nat)" and "r < n"
  shows "k * n + r < N * n"
proof -
  have "k * n + r < Suc k * n" using assms(2) by simp
  also have "\<dots> \<le> N * n" using assms(1) by (intro mult_le_mono1) simp
  finally show ?thesis .
qed

lemma co2_rewire_map:
  assumes "co2_rewire data p2o pre = Inr (p2o', out)"
  shows "\<exists>h. out = map h pre
     \<and> (\<forall>pl. \<exists>extra. h pl = pl @ extra
              \<and> (extra = [] \<or> (\<exists>co2. panel_co2_pin data = Some co2 \<and> extra = [co2])))"
proof (cases "filter (\<lambda>od. name od = ''CO2'') (odors data) = []")
  case True
  with assms have "out = map (\<lambda>pl. pl) pre" by (simp add: co2_rewire_def)
  then show ?thesis by (intro exI [of _ "\<lambda>pl. pl"]) simp
next
  case False
  with assms obtain co2 curr where c: "panel_co2_pin data = Some co2"
    and o: "out = map (\<lambda>pl. if curr \<in> set pl then pl @ [co2] else pl) pre"
    by (auto simp: co2_rewire_def Let_def split: if_splits option.splits)
  from o show ?thesis
    by (intro exI [of _ "\<lambda>pl. if curr \<in> set pl then pl @ [co2] else pl"]) (simp add: c)
qed

lemma example_panel_shuffled_run:
  "make_config_dict_panel (map (\<lambda>pl. pl @ [9])) [0, 0, 0, 1, 0, 0]
        (example_panel\<lparr>randomize_presentation_order := Some (PBool True)\<rparr>)
       = Inr (example_panel_int_config, [OnlyRandomizesAcrossOdors])"
  unfolding example_panel_int_config_def example_panel_def by code_simp

text \<open>
  Claim C2. On a successful run of the panel scheduler over \<open>N\<close> odors, with a
  non-negative \<^verbatim>\<open>n_repeats\<close> (1 when absent) and a balance pin step that appends pins
  to each trial, there are \<open>N * n_repeats\<close> trials. The list of trial pins is a
  permutation of the \<open>N\<close> sampled odor pins (the shuffle acts on that list, before the
  repeats), and the trials come in \<open>N\<close> blocks of \<^verbatim>\<open>n_repeats\<close> identical trials:
  every trial of block \<open>k\<close> is the \<open>k\<close>-th trial pin alone, followed by its balance pins
  and possibly the CO2 pin, so the repeats of one odor are consecutive.
\<close>

theorem panel_trials_grouped:
  assumes run: "make_config_dict_panel add_balance_pins g data = Inr (cfg, ws)"
    and abp: "\<forall>tl. add_balance_pins tl = map (\<lambda>pl. pl @ bal pl) tl"
    and n: "n = (case panel_n_repeats data of Some m \<Rightarrow> m | None \<Rightarrow> 1)"
    and n0: "0 \<le> n"
    and N: "N = length (odors data)"
  shows "int (length (pinlist_at_each_trial cfg)) = int N * n
     \<and> (\<exists>trial_pins.
           mset trial_pins = mset (fst (draw_sample g (available_valve_pins data) N))
           \<and> length trial_pins = N
           \<and> (\<forall>k < N. \<forall>r < nat n.
                 pinlist_at_each_trial cfg ! (k * nat n + r)
                   = pinlist_at_each_trial cfg ! (k * nat n)
                 \<and> (\<exists>extra.
                       pinlist_at_each_trial cfg ! (k * nat n + r)
                         = [trial_pins ! k] @ bal [trial_pins ! k] @ extra
                       \<and> (extra = []
                            \<or> (\<exists>co2. panel_co2_pin data = Some co2 \<and> extra = [co2])))))"
proof -
  let ?out = "pinlist_at_each_trial cfg"
  from run obtain p2o pre where
    b: "panel_before_co2 add_balance_pins g data = Inr (p2o, pre, ws)"
    and c: "co2_rewire data p2o pre = Inr (pins2odors cfg, ?out)"
    by (rule make_config_dict_panel_InrD)
  from b obtain rpo w1 n' w2 tp where
    le: "length (odors data) \<le> length (available_valve_pins data)"
    and rn: "resolve_n_repeats data rpo = (n', w2)"
    and tp: "mset tp = mset (fst (draw_sample g (available_valve_pins data) (length (odors data))))"
    and pre: "pre = add_balance_pins (expand_trials tp n')"
    by (rule panel_before_co2_InrD)
  from rn n have nn: "n' = n"
    by (auto simp: resolve_n_repeats_def split: option.splits)
  from mset_eq_length [OF tp] le have ltp: "length tp = N"
    by (simp add: draw_sample_length N)
  from co2_rewire_map [OF c] obtain h where out: "?out = map h pre"
    and h: "\<forall>pl. \<exists>extra. h pl = pl @ extra
              \<and> (extra = [] \<or> (\<exists>co2. panel_co2_pin data = Some co2 \<and> extra = [co2]))"
    by blast
  have pre': "pre = map (\<lambda>pl. pl @ bal pl) (expand_trials tp n)"
    using pre abp nn by simp
  have "length ?out = N * nat n"
    by (simp add: out pre' length_expand_trials ltp)
  then have "int (length ?out) = int N * int (nat n)" by simp
  with n0 have len: "int (length ?out) = int N * n" by simp
  have blocks: "\<forall>k < N. \<forall>r < nat n.
                 ?out ! (k * nat n + r) = ?out ! (k * nat n)
                 \<and> (\<exists>extra. ?out ! (k * nat n + r) = [tp ! k] @ bal [tp ! k] @ extra
                       \<and> (extra = []
                            \<or> (\<exists>co2. panel_co2_pin data = Some co2 \<and> extra = [co2])))"
  proof (intro allI impI)
    fix k r
    assume k: "k < N" and r: "r < nat n"
    from r have pos: "0 < nat n" by simp
    have i_r: "k * nat n + r < length (expand_trials tp n)"
      using block_index [OF k r] by (simp add: length_expand_trials ltp)
    have i_0: "k * nat n < length (expand_trials tp n)"
      using block_index [OF k pos] by (simp add: length_expand_trials ltp)
    from k ltp have k': "k < length tp" by simp
    have e_r: "expand_trials tp n ! (k * nat n + r) = [tp ! k]"
      using k' r by (rule expand_trials_nth)
    have e_0: "expand_trials tp n ! (k * nat n) = [tp ! k]"
      using expand_trials_nth [OF k' pos] by simp
    have o_r: "?out ! (k * nat n + r) = h ([tp ! k] @ bal [tp ! k])"
      using i_r by (simp add: out pre' e_r)
    have o_0: "?out ! (k * nat n) = h ([tp ! k] @ bal [tp ! k])"
      using i_0 by (simp add: out pre' e_0)
    from h [rule_format, of "[tp ! k] @ bal [tp ! k]"] o_r o_0
    show "?out ! (k * nat n + r) = ?out ! (k * nat n)
                 \<and> (\<exists>extra. ?out ! (k * nat n + r) = [tp ! k] @ bal [tp ! k] @ extra
                       \<and> (extra = []
                            \<or> (\<exists>co2. panel_co2_pin data = Some co2 \<and> extra = [co2])))"
      by auto
  qed
  from tp ltp blocks have "\<exists>trial_pins.
           mset trial_pins = mset (fst (draw_sample g (available_valve_pins data) N))
           \<and> length trial_pins = N
           \<and> (\<forall>k < N. \<forall>r < nat n.
                 ?out ! (k * nat n + r) = ?out ! (k * nat n)
                 \<and> (\<exists>extra. ?out ! (k * nat n + r)
                         = [trial_pins ! k] @ bal [trial_pins ! k] @ extra
                       \<and> (extra = []
                            \<or> (\<exists>co2. panel_co2_pin data = Some co2 \<and> extra = [co2]))))"
    unfolding N by blast
  with len show ?thesis by blast
qed

theorem panel_trials_grouped_witness:
  "make_config_dict_panel (map (\<lambda>pl. pl @ [9])) [0, 0, 0, 1, 0, 0]
        (example_panel\<lparr>randomize_presentation_order := Some (PBool True)\<rparr>)
       = Inr (example_panel_int_config, [OnlyRandomizesAcrossOdors])
   \<and> int (length (pinlist_at_each_trial example_panel_int_config)) = 3 * 2
   \<and> (\<exists>trial_pins. mset trial_pins = mset [2, 3, 4] \<and> length trial_pins = 3
         \<and> pinlist_at_each_trial example_panel_int_config ! 1
             = pinlist_at_each_trial example_panel_int_config ! 0
         \<and> (\<exists>extra. pinlist_at_each_trial example_panel_int_config ! 1
                       = [trial_pins ! 0] @ [9] @ extra))"
proof -
  let ?abp = "map (\<lambda>pl. pl @ [9 :: int])"
  let ?data = "example_panel\<lparr>randomize_presentation_order := Some (PBool True)\<rparr>"
  let ?out = "pinlist_at_each_trial example_panel_int_config"
  have abp: "\<forall>tl. ?abp tl = map (\<lambda>pl. pl @ (\<lambda>_. [9]) pl) tl" by simp
  have n: "2 = (case panel_n_repeats ?data of Some m \<Rightarrow> m | None \<Rightarrow> 1)"
    by (simp add: example_panel_def)
  have n0: "(0 :: int) \<le> 2" by simp
  have N: "3 = length (odors ?data)" by (simp add: example_panel_def)
  have smp: "fst (draw_sample [0, 0, 0, 1, 0, 0] (available_valve_pins ?data) 3) = [2, 3, 4]"
    unfolding example_panel_def by code_simp
  note th = panel_trials_grouped [OF example_panel_shuffled_run abp n n0 N]
  from th have len: "int (length ?out) = int 3 * 2" by blast
  from th obtain trial_pins where
    p: "mset trial_pins = mset (fst (draw_sample [0, 0, 0, 1, 0, 0] (available_valve_pins ?data) 3))"
    and l: "length trial_pins = 3"
    and blk: "\<forall>k < 3. \<forall>r < nat 2.
                 ?out ! (k * nat 2 + r) = ?out ! (k * nat 2)
                 \<and> (\<exists>extra. ?out ! (k * nat 2 + r) = [trial_pins ! k] @ [9] @ extra
                       \<and> (extra = []
                            \<or> (\<exists>co2. panel_co2_pin ?data = Some co2 \<and> extra = [co2])))"
    by blast
  note inst = blk [rule_format, of 0 1]
  have eq: "?out ! 1 = ?out ! 0" using inst [THEN conjunct1] by simp
  have ex: "\<exists>extra. ?out ! 1 = [trial_pins ! 0] @ [9] @ extra"
    using inst [THEN conjunct2] by auto
  from p smp have p': "mset trial_pins = mset [2, 3, 4]" by simp
  from p' l eq ex have "\<exists>trial_pins. mset trial_pins = mset [2, 3, 4] \<and> length trial_pins = 3
         \<and> ?out ! 1 = ?out ! 0
         \<and> (\<exists>extra. ?out ! 1 = [trial_pins ! 0] @ [9] @ extra)"
    by blast
  with example_panel_shuffled_run len show ?thesis by simp
qed

section \<open>The panel scheduler: CO2 rewiring\<close>

lemma co2_rewire_InrD:
  assumes "co2_rewire data p2o pre = Inr (p2o', out)"
    and "\<exists>od \<in> set (odors data). name od = ''CO2''"
  obtains co2 curr co2_odor where
    "panel_co2_pin data = Some co2"
    "filter (\<lambda>od. name od = ''CO2'') (odors data) = [co2_odor]"
    "map fst (filter (\<lambda>(p, od). name od = ''CO2'') p2o) = [curr]"
    "\<not> list_ex (\<lambda>pl. co2 \<in> set pl) pre"
    "p2o' = AList.update co2 co2_odor (AList.update curr air_for_co2_mixture p2o)"
    "out = map (\<lambda>pl. if curr \<in> set pl then pl @ [co2] else pl) pre"
proof -
  let ?co2s = "filter (\<lambda>od. name od = ''CO2'') (odors data)"
  let ?currs = "map fst (filter (\<lambda>(p, od). name od = ''CO2'') p2o)"
  from assms(2) have ne: "?co2s \<noteq> []" by (auto simp: filter_empty_conv)
  with assms(1) obtain co2 where c: "panel_co2_pin data = Some co2"
    by (auto simp: co2_rewire_def Let_def split: option.splits)
  from assms(1) ne c have "\<not> 1 < length ?co2s"
    by (auto simp: co2_rewire_def Let_def split: if_splits)
  with ne have l1: "length ?co2s = 1"
    by (cases ?co2s) auto
  from assms(1) ne c l1 have l2: "length ?currs = 1"
    by (auto simp: co2_rewire_def Let_def split: if_splits)
  from l1 have s1: "?co2s = [hd ?co2s]" by (cases ?co2s) auto
  from l2 have s2: "?currs = [hd ?currs]" by (cases ?currs) auto
  from assms(1) ne c l1 l2 have
    "\<not> list_ex (\<lambda>pl. co2 \<in> set pl) pre"
    "p2o' = AList.update co2 (hd ?co2s) (AList.update (hd ?currs) air_for_co2_mixture p2o)"
    "out = map (\<lambda>pl. if hd ?currs \<in> set pl then pl @ [co2] else pl) pre"
    by (auto simp: co2_rewire_def Let_def air_for_co2_mixture_def split: if_splits)
  with c s1 s2 show ?thesis by (rule that)
qed

lemma co2_rewire_fatal:
  assumes "\<exists>od \<in> set (odors data). name od = ''CO2''"
    and "panel_co2_pin data = Some co2" and "\<exists>pl \<in> set pre. co2 \<in> set pl"
  shows "\<exists>e. co2_rewire data p2o pre = Inl e"
proof -
  from assms(1) have "filter (\<lambda>od. name od = ''CO2'') (odors data) \<noteq> []"
    by (auto simp: filter_empty_conv)
  moreover from assms(3) have "list_ex (\<lambda>pl. co2 \<in> set pl) pre"
    by (simp add: list_ex_iff)
  ultimately show ?thesis using assms(2)
    by (simp add: co2_rewire_def Let_def)
qed

lemma length_update_if:
  "length (AList.update k v al) = (if k \<in> fst ` set al then length al else Suc (length al))"
  by (induction al) auto

lemma example_panel_before:
  "panel_before_co2 (map (\<lambda>pl. pl @ [9])) [] example_panel
     = Inr ([(2, \<lparr>name = ''A'', log10_conc = Some (- 3)\<rparr>),
             (3, \<lparr>name = ''B'', log10_conc = None\<rparr>),
             (4, \<lparr>name = ''CO2'', log10_conc = None\<rparr>)],
            [[2, 9], [2, 9], [3, 9], [3, 9], [4, 9], [4, 9]], [])"
  unfolding example_panel_def by code_simp

lemma example_panel_before_9:
  "panel_before_co2 (map (\<lambda>pl. pl @ [9])) [] (example_panel\<lparr>panel_co2_pin := Some 9\<rparr>)
     = Inr ([(2, \<lparr>name = ''A'', log10_conc = Some (- 3)\<rparr>),
             (3, \<lparr>name = ''B'', log10_conc = None\<rparr>),
             (4, \<lparr>name = ''CO2'', log10_conc = None\<rparr>)],
            [[2, 9], [2, 9], [3, 9], [3, 9], [4, 9], [4, 9]], [])"
  unfolding example_panel_def by code_simp

lemma example_panel_run:
  "make_config_dict_panel (map (\<lambda>pl. pl @ [9])) [] example_panel
     = Inr (example_panel_config, [])"
  unfolding example_panel_def example_panel_config_def by code_simp

text \<open>
  Claim C3. Take a panel with an odor named CO2, an external CO2 pin, and a pool of
  distinct pins that does not hold the CO2 pin, and let the steps before the CO2 block
  have produced the pin map and the trials. If the CO2 pin is in some trial the run
  fails. On a successful run the CO2 pin is in no trial before the rewiring; there is a
  pin that the map assigned to the CO2 descriptor; each trial holding that pin gets the
  CO2 pin appended and the other trials are unchanged, so that a trial holds the CO2 pin
  if and only if it holds that pin; in the final map that pin carries the entry `air for
  co2-mixture compensation' and the CO2 pin carries the CO2 descriptor; and the final
  map has one entry more than there are odors.
\<close>

theorem co2_rewiring:
  assumes before: "panel_before_co2 add_balance_pins g data = Inr (p2o, pre, ws)"
    and present: "\<exists>od \<in> set (odors data). name od = ''CO2''"
    and pin: "panel_co2_pin data = Some co2"
    and dist: "distinct (available_valve_pins data)"
    and fresh: "co2 \<notin> set (available_valve_pins data)"
  shows "((\<exists>pl \<in> set pre. co2 \<in> set pl) \<longrightarrow>
            (\<exists>e. make_config_dict_panel add_balance_pins g data = Inl e))
     \<and> (\<forall>cfg ws'. make_config_dict_panel add_balance_pins g data = Inr (cfg, ws') \<longrightarrow>
           (\<forall>pl \<in> set pre. co2 \<notin> set pl)
           \<and> (\<exists>curr co2_odor.
                 map_of p2o curr = Some co2_odor \<and> name co2_odor = ''CO2''
                 \<and> co2_odor \<in> set (odors data)
                 \<and> pinlist_at_each_trial cfg
                     = map (\<lambda>pl. if curr \<in> set pl then pl @ [co2] else pl) pre
                 \<and> (\<forall>t \<in> set (pinlist_at_each_trial cfg). co2 \<in> set t \<longleftrightarrow> curr \<in> set t)
                 \<and> map_of (pins2odors cfg) curr = Some air_for_co2_mixture
                 \<and> map_of (pins2odors cfg) co2 = Some co2_odor
                 \<and> length p2o = length (odors data)
                 \<and> length (pins2odors cfg) = length (odors data) + 1))"
proof (intro conjI impI allI)
  assume "\<exists>pl \<in> set pre. co2 \<in> set pl"
  with present pin have "\<exists>e. co2_rewire data p2o pre = Inl e"
    by (intro co2_rewire_fatal)
  then show "\<exists>e. make_config_dict_panel add_balance_pins g data = Inl e"
    by (auto simp: make_config_dict_panel_def before)
next
  fix cfg ws'
  assume run: "make_config_dict_panel add_balance_pins g data = Inr (cfg, ws')"
  let ?N = "length (odors data)"
  let ?pins = "fst (draw_sample g (available_valve_pins data) ?N)"
  from run before have rw: "co2_rewire data p2o pre
      = Inr (pins2odors cfg, pinlist_at_each_trial cfg)"
    by (auto simp: make_config_dict_panel_def and_then_eq_Inr)
  from before obtain le: "?N \<le> length (available_valve_pins data)"
    and p2o: "p2o = AList.updates ?pins (odors data) []"
    by (rule panel_before_co2_InrD)
  have lp: "length ?pins = ?N" using le by (rule draw_sample_length)
  have dp: "distinct ?pins" using dist by (rule draw_sample_distinct)
  have zip: "p2o = zip ?pins (odors data)"
    using updates_fresh [of ?pins "[]" "odors data"] dp lp by (simp add: p2o)
  have keys: "map fst p2o = ?pins" by (simp add: zip lp)
  have lp2o: "length p2o = ?N" by (simp add: zip lp)
  from rw present obtain co2' curr co2_odor where
    c': "panel_co2_pin data = Some co2'"
    and one: "filter (\<lambda>od. name od = ''CO2'') (odors data) = [co2_odor]"
    and cur: "map fst (filter (\<lambda>(p, od). name od = ''CO2'') p2o) = [curr]"
    and chk: "\<not> list_ex (\<lambda>pl. co2' \<in> set pl) pre"
    and map': "pins2odors cfg
        = AList.update co2' co2_odor (AList.update curr air_for_co2_mixture p2o)"
    and out: "pinlist_at_each_trial cfg
        = map (\<lambda>pl. if curr \<in> set pl then pl @ [co2'] else pl) pre"
    by (rule co2_rewire_InrD)
  from c' pin have [simp]: "co2' = co2" by simp
  from chk have none: "\<forall>pl \<in> set pre. co2 \<notin> set pl"
    by (simp add: list_ex_iff)
  have "curr \<in> set (map fst (filter (\<lambda>(p, od). name od = ''CO2'') p2o))"
    by (simp add: cur)
  then obtain od where mem: "(curr, od) \<in> set p2o" and nm: "name od = ''CO2''"
    by auto
  from mem have "map_of p2o curr = Some od"
    using dp keys by (intro map_of_is_SomeI) simp_all
  moreover from mem have "od \<in> set (odors data)"
    by (auto simp: zip dest: set_zip_rightD)
  with nm have "od \<in> set (filter (\<lambda>od. name od = ''CO2'') (odors data))" by simp
  with one have od: "od = co2_odor" by simp
  ultimately have m0: "map_of p2o curr = Some co2_odor" by simp
  from od nm have n0: "name co2_odor = ''CO2''" by simp
  have "co2_odor \<in> set (filter (\<lambda>od. name od = ''CO2'') (odors data))"
    by (simp add: one)
  then have in0: "co2_odor \<in> set (odors data)" by simp
  from mem have ck: "curr \<in> fst ` set p2o" by force
  then have "curr \<in> set ?pins" using keys by (metis set_map)
  with draw_sample_set [of g "available_valve_pins data" ?N]
  have cpool: "curr \<in> set (available_valve_pins data)" by blast
  with fresh have ne: "curr \<noteq> co2" by auto
  have nk: "co2 \<notin> fst ` set p2o"
  proof
    assume "co2 \<in> fst ` set p2o"
    then have "co2 \<in> set ?pins" using keys by (metis set_map)
    with draw_sample_set [of g "available_valve_pins data" ?N] fresh show False by blast
  qed
  have iff: "\<forall>t \<in> set (pinlist_at_each_trial cfg). co2 \<in> set t \<longleftrightarrow> curr \<in> set t"
    using none by (auto simp: out)
  have m1: "map_of (pins2odors cfg) curr = Some air_for_co2_mixture"
    using ne by (simp add: map' update_conv')
  have m2: "map_of (pins2odors cfg) co2 = Some co2_odor"
    by (simp add: map' update_conv')
  have l1: "length (AList.update curr air_for_co2_mixture p2o) = ?N"
    using ck by (simp add: length_update_if lp2o)
  have "co2 \<notin> fst ` set (AList.update curr air_for_co2_mixture p2o)"
    using nk ne by (simp add: dom_update)
  then have "length (pins2odors cfg) = Suc (length (AList.update curr air_for_co2_mixture p2o))"
    unfolding map' by (simp only: length_update_if if_False \<open>co2' = co2\<close>)
  with l1 have l2: "length (pins2odors cfg) = ?N + 1" by simp
  from none show "\<forall>pl \<in> set pre. co2 \<notin> set pl" .
  from m0 n0 in0 out iff m1 m2 lp2o l2
  show "\<exists>curr co2_odor.
                 map_of p2o curr = Some co2_odor \<and> name co2_odor = ''CO2''
                 \<and> co2_odor \<in> set (odors data)
                 \<and> pinlist_at_each_trial cfg
                     = map (\<lambda>pl. if curr \<in> set pl then pl @ [co2] else pl) pre
                 \<and> (\<forall>t \<in> set (pinlist_at_each_trial cfg). co2 \<in> set t \<longleftrightarrow> curr \<in> set t)
                 \<and> map_of (pins2odors cfg) curr = Some air_for_co2_mixture
                 \<and> map_of (pins2odors cfg) co2 = Some co2_odor
                 \<and> length p2o = length (odors data)
                 \<and> length (pins2odors cfg) = length (odors data) + 1"
    by (intro exI [of _ curr] exI [of _ co2_odor]) simp
qed

theorem co2_rewiring_witness:
  "make_config_dict_panel (map (\<lambda>pl. pl @ [9])) [] example_panel
     = Inr (example_panel_config, [])
   \<and> (\<exists>curr co2_odor.
         name co2_odor = ''CO2''
         \<and> pinlist_at_each_trial example_panel_config
             = map (\<lambda>pl. if curr \<in> set pl then pl @ [5] else pl)
                 [[2, 9], [2, 9], [3, 9], [3, 9], [4, 9], [4, 9]]
         \<and> map_of (pins2odors example_panel_config) curr = Some air_for_co2_mixture
         \<and> map_of (pins2odors example_panel_config) 5 = Some co2_odor
         \<and> length (pins2odors example_panel_config) = 3 + 1)
   \<and> (\<exists>e. make_config_dict_panel (map (\<lambda>pl. pl @ [9])) []
              (example_panel\<lparr>panel_co2_pin := Some 9\<rparr>) = Inl e)"
proof -
  let ?abp = "map (\<lambda>pl. pl @ [9 :: int])"
  let ?pre = "[[2, 9], [2, 9], [3, 9], [3, 9], [4, 9], [4, 9 :: int]]"
  let ?d9 = "example_panel\<lparr>panel_co2_pin := Some 9\<rparr>"
  have present: "\<exists>od \<in> set (odors example_panel). name od = ''CO2''"
    by (simp add: example_panel_def)
  have pin: "panel_co2_pin example_panel = Some 5" by (simp add: example_panel_def)
  have dist: "distinct (available_valve_pins example_panel)" by (simp add: example_panel_def)
  have fresh: "5 \<notin> set (available_valve_pins example_panel)" by (simp add: example_panel_def)
  have N: "length (odors example_panel) = 3" by (simp add: example_panel_def)
  note th = co2_rewiring [OF example_panel_before present pin dist fresh]
  from th example_panel_run obtain curr co2_odor where
    "name co2_odor = ''CO2''"
    "pinlist_at_each_trial example_panel_config
       = map (\<lambda>pl. if curr \<in> set pl then pl @ [5] else pl) ?pre"
    "map_of (pins2odors example_panel_config) curr = Some air_for_co2_mixture"
    "map_of (pins2odors example_panel_config) 5 = Some co2_odor"
    "length (pins2odors example_panel_config) = length (odors example_panel) + 1"
    by blast
  then have a: "\<exists>curr co2_odor.
         name co2_odor = ''CO2''
         \<and> pinlist_at_each_trial example_panel_config
             = map (\<lambda>pl. if curr \<in> set pl then pl @ [5] else pl) ?pre
         \<and> map_of (pins2odors example_panel_config) curr = Some air_for_co2_mixture
         \<and> map_of (pins2odors example_panel_config) 5 = Some co2_odor
         \<and> length (pins2odors example_panel_config) = 3 + 1"
    unfolding N by blast
  have present9: "\<exists>od \<in> set (odors ?d9). name od = ''CO2''"
    by (simp add: example_panel_def)
  have pin9: "panel_co2_pin ?d9 = Some 9" by simp
  have dist9: "distinct (available_valve_pins ?d9)" by (simp add: example_panel_def)
  have fresh9: "9 \<notin> set (available_valve_pins ?d9)" by (simp add: example_panel_def)
  have hit: "\<exists>pl \<in> set ?pre. 9 \<in> set pl" by simp
  from co2_rewiring [OF example_panel_before_9 present9 pin9 dist9 fresh9] hit
  have b: "\<exists>e. make_config_dict_panel ?abp [] ?d9 = Inl e" by blast
  from example_panel_run a b show ?thesis by blast
qed

end
